theory Spec2Isabelle
  imports Main "HOL-Library.Sublist" "HOL-Library.AList"
begin

section \<open>JavaScript strings\<close>

text \<open>
  Strings of the generator (\<^verbatim>\<open>src/auto-generator.ts\<close>) are modelled as \<^typ>\<open>string\<close>,
  one \<^typ>\<open>char\<close> per character; the model covers ASCII text, where
  \<^verbatim>\<open>toLowerCase\<close> and \<^verbatim>\<open>toUpperCase\<close> touch the 26 letters only.
  Characters that cannot be written inside a string literal get a name.
\<close>

abbreviation DQ :: char where "DQ \<equiv> CHR 0x22"
abbreviation SQ :: char where "SQ \<equiv> CHR 0x27"
abbreviation NL :: char where "NL \<equiv> CHR 0x0A"
abbreviation CR :: char where "CR \<equiv> CHR 0x0D"
abbreviation TAB :: char where "TAB \<equiv> CHR 0x09"
abbreviation VT :: char where "VT \<equiv> CHR 0x0B"
abbreviation FF :: char where "FF \<equiv> CHR 0x0C"
abbreviation BSP :: char where "BSP \<equiv> CHR 0x08"
abbreviation BSL :: char where "BSL \<equiv> CHR 0x5C"

definition lowerChar :: "char \<Rightarrow> char" where
  "lowerChar c =
     (case map_of (zip ''ABCDEFGHIJKLMNOPQRSTUVWXYZ'' ''abcdefghijklmnopqrstuvwxyz'') c of
        Some d \<Rightarrow> d | None \<Rightarrow> c)"

definition upperChar :: "char \<Rightarrow> char" where
  "upperChar c =
     (case map_of (zip ''abcdefghijklmnopqrstuvwxyz'' ''ABCDEFGHIJKLMNOPQRSTUVWXYZ'') c of
        Some d \<Rightarrow> d | None \<Rightarrow> c)"

definition toLowerCase :: "string \<Rightarrow> string" where
  "toLowerCase s = map lowerChar s"

definition toUpperCase :: "string \<Rightarrow> string" where
  "toUpperCase s = map upperChar s"

text \<open>\<^verbatim>\<open>/^(p1|p2|...)/.test(s)\<close>: some alternative is a prefix of \<open>s\<close>.\<close>

definition startsWithAny :: "string list \<Rightarrow> string \<Rightarrow> bool" where
  "startsWithAny ps s = list_ex (\<lambda>p. prefix p s) ps"

text \<open>\<^verbatim>\<open>s.match(/^(p1|p2|...)/)[0]\<close>: the first alternative, in the order written, that is a
  prefix of \<open>s\<close>.\<close>

definition firstAlternative :: "string list \<Rightarrow> string \<Rightarrow> string option" where
  "firstAlternative ps s = find (\<lambda>p. prefix p s) ps"

text \<open>\<^verbatim>\<open>/(p1|p2|...)/.test(s)\<close>: some alternative occurs in \<open>s\<close>.\<close>

definition containsAny :: "string list \<Rightarrow> string \<Rightarrow> bool" where
  "containsAny ps s = list_ex (\<lambda>p. sublist p s) ps"

definition isDigit :: "char \<Rightarrow> bool" where
  "isDigit c = (c \<in> set ''0123456789'')"

text \<open>\<^verbatim>\<open>s.match(/\(\d+\)/)\<close>: the leftmost parenthesised run of digits, or \<open>None\<close> for
  \<^verbatim>\<open>null\<close>. The digits are taken greedily and must be followed by the closing parenthesis.\<close>

fun matchLength :: "string \<Rightarrow> string option" where
  "matchLength [] = None"
| "matchLength (c # cs) =
     (let ds = takeWhile isDigit cs; rest = dropWhile isDigit cs in
      if c = CHR ''('' \<and> ds \<noteq> [] \<and> prefix '')'' rest
      then Some (c # ds @ '')'')
      else matchLength cs)"

text \<open>\<^verbatim>\<open>s.match(/\(\d+,\d+\)/)\<close>: the leftmost \<open>(digits,digits)\<close> group.\<close>

fun matchPrecision :: "string \<Rightarrow> string option" where
  "matchPrecision [] = None"
| "matchPrecision (c # cs) =
     (let ds = takeWhile isDigit cs; rest = dropWhile isDigit cs;
          es = takeWhile isDigit (tl rest); rest' = dropWhile isDigit (tl rest) in
      if c = CHR ''('' \<and> ds \<noteq> [] \<and> prefix '','' rest \<and> es \<noteq> [] \<and> prefix '')'' rest'
      then Some (c # ds @ '','' @ es @ '')'')
      else matchPrecision cs)"

text \<open>\<^verbatim>\<open>/^enum(\(.*\))?$/\<close>: \<open>enum\<close> alone, or \<open>enum(\<close>, any characters but line
  terminators, \<open>)\<close>.\<close>

definition matchesEnum :: "string \<Rightarrow> bool" where
  "matchesEnum s =
     (prefix ''enum'' s \<and>
      (let r = drop 4 s in
       r = [] \<or>
       (2 \<le> length r \<and> hd r = CHR ''('' \<and> last r = CHR '')'' \<and>
        NL \<notin> set (butlast (tl r)) \<and> CR \<notin> set (butlast (tl r)))))"

text \<open>\<^verbatim>\<open>s.replace(/[c]/g, rep)\<close> for a single character \<open>c\<close>.\<close>

definition replaceChar :: "char \<Rightarrow> string \<Rightarrow> string \<Rightarrow> string" where
  "replaceChar c rep s = concat (map (\<lambda>x. if x = c then rep else [x]) s)"

text \<open>\<^verbatim>\<open>s.replace(/[)(]/g, '')\<close>.\<close>

definition stripParens :: "string \<Rightarrow> string" where
  "stripParens s = filter (\<lambda>c. c \<noteq> CHR ''('' \<and> c \<noteq> CHR '')'') s"

text \<open>\<^verbatim>\<open>s.split(',')\<close> and \<^verbatim>\<open>xs.join(sep)\<close>.\<close>

fun splitOn :: "char \<Rightarrow> string \<Rightarrow> string list" where
  "splitOn c [] = [[]]"
| "splitOn c (x # xs) =
     (if x = c then [] # splitOn c xs
      else (case splitOn c xs of [] \<Rightarrow> [[x]] | h # t \<Rightarrow> (x # h) # t))"

fun joinWith :: "string \<Rightarrow> string list \<Rightarrow> string" where
  "joinWith sep [] = []"
| "joinWith sep [x] = x"
| "joinWith sep (x # y # ys) = x @ sep @ joinWith sep (y # ys)"

text \<open>\<^verbatim>\<open>s.substring(a, b)\<close>: both indices are clamped to the string and swapped when
  \<open>a > b\<close>.\<close>

definition substring :: "string \<Rightarrow> int \<Rightarrow> int \<Rightarrow> string" where
  "substring s a b =
     (let n = int (length s);
          a' = max 0 (min a n); b' = max 0 (min b n);
          lo = min a' b'; hi = max a' b'
      in take (nat (hi - lo)) (drop (nat lo) s))"

text \<open>\<^verbatim>\<open>s.trim()\<close> on ASCII white space.\<close>

definition isSpace :: "char \<Rightarrow> bool" where
  "isSpace c = (c \<in> {CHR '' '', TAB, NL, VT, FF, CR})"

definition trimStart :: "string \<Rightarrow> string" where
  "trimStart s = dropWhile isSpace s"

definition trimEnd :: "string \<Rightarrow> string" where
  "trimEnd s = rev (dropWhile isSpace (rev s))"

definition trim :: "string \<Rightarrow> string" where
  "trim s = trimEnd (trimStart s)"

text \<open>\<^verbatim>\<open>escapeSpecial\<close> (lines 654-667), on a string: eight global replacements, in the
  source's order.\<close>

definition escapeSpecial :: "string \<Rightarrow> string" where
  "escapeSpecial val =
     replaceChar TAB [BSL, CHR ''t'']
      (replaceChar CR [BSL, CHR ''r'']
       (replaceChar NL [BSL, CHR ''n'']
        (replaceChar FF [BSL, CHR ''f'']
         (replaceChar BSP [BSL, CHR ''b'']
          (replaceChar CHR ''/'' [BSL, CHR ''/'']
           (replaceChar DQ [BSL, DQ]
            (replaceChar BSL [BSL, BSL] val)))))))"

text \<open>\<^verbatim>\<open>quoteName\<close> (lines 670-672): \<^verbatim>\<open>/^[$A-Z_][0-9A-Z_$]*$/i\<close>.\<close>

definition isIdentStart :: "char \<Rightarrow> bool" where
  "isIdentStart c = (upperChar c \<in> set ''ABCDEFGHIJKLMNOPQRSTUVWXYZ'' \<or> c = CHR ''$'' \<or> c = CHR ''_'')"

definition isIdentChar :: "char \<Rightarrow> bool" where
  "isIdentChar c = (isIdentStart c \<or> isDigit c)"

definition quoteName :: "string \<Rightarrow> string" where
  "quoteName name =
     (if name \<noteq> [] \<and> isIdentStart (hd name) \<and> list_all isIdentChar (tl name)
      then name else [SQ] @ name @ [SQ])"

text \<open>The type-family tests (lines 674-696).\<close>

definition isNumber :: "string \<Rightarrow> bool" where
  "isNumber fieldType =
     startsWithAny [''smallint'', ''mediumint'', ''tinyint'', ''int'', ''bigint'', ''float'',
       ''money'', ''smallmoney'', ''double'', ''decimal'', ''numeric'', ''real''] fieldType"

definition isBoolean :: "string \<Rightarrow> bool" where
  "isBoolean fieldType = startsWithAny [''boolean'', ''bit''] fieldType"

definition isDate :: "string \<Rightarrow> bool" where
  "isDate fieldType = startsWithAny [''datetime'', ''timestamp''] fieldType"

definition isString :: "string \<Rightarrow> bool" where
  "isString fieldType =
     startsWithAny [''char'', ''nchar'', ''string'', ''varying'', ''varchar'', ''nvarchar'',
       ''text'', ''longtext'', ''mediumtext'', ''tinytext'', ''ntext'', ''uuid'',
       ''uniqueidentifier'', ''date'', ''time''] fieldType"

definition isArray :: "string \<Rightarrow> bool" where
  "isArray fieldType = (prefix ''array'' fieldType \<or> suffix ''range'' fieldType)"

definition isEnum :: "string \<Rightarrow> bool" where
  "isEnum fieldType = prefix ''enum'' fieldType"

section \<open>JavaScript values and the schema model\<close>

text \<open>
  A thrown \<^verbatim>\<open>TypeError\<close> (a property read on \<^verbatim>\<open>undefined\<close> or \<^verbatim>\<open>null\<close>, a call of
  something that is not a function) is a value of the model, and so is the
  \<^verbatim>\<open>RangeError\<close> of a recursion that exhausts the call stack.
\<close>

datatype error = TypeError | RangeError

definition bindE :: "error + 'a \<Rightarrow> ('a \<Rightarrow> error + 'b) \<Rightarrow> error + 'b" where
  "bindE r f = (case r of Inl e \<Rightarrow> Inl e | Inr v \<Rightarrow> f v)"

text \<open>
  \<^verbatim>\<open>FKSpec\<close> is declared in \<^verbatim>\<open>./dialects/dialect-options\<close>, which is not part of the
  sources at hand; the record has the members the generator reads. \<open>isUnique\<close> is a boolean or
  the name of a constraint; the two members of \<^verbatim>\<open>foreignSources\<close> may be undefined.
\<close>

datatype boolOrString = B bool | S string

record FKSpec =
  isForeignKey :: bool
  isSerialKey :: bool
  isPrimaryKey :: bool
  isUnique :: boolOrString
  generation :: "string option"
  target_table :: "string option"
  target_column :: "string option"

text \<open>
  The values a column attribute or a free-form option can hold: \<^verbatim>\<open>undefined\<close>,
  \<^verbatim>\<open>null\<close>, booleans, strings, arrays of strings (the \<^verbatim>\<open>special\<close> list of enum labels) and
  foreign-key objects. Numbers are not modelled.
\<close>

datatype jsval = JUndefined | JNull | JBool bool | JStr string | JArr "string list" | JFK FKSpec

text \<open>
  An object is the list of its own enumerable properties in enumeration order
  (\<^verbatim>\<open>_.keys\<close>); a column descriptor is such an object. Reading a missing property gives
  \<^verbatim>\<open>undefined\<close>; assigning a property replaces it in place or appends it.
\<close>

type_synonym jsobj = "(string \<times> jsval) list"

definition jsGet :: "jsobj \<Rightarrow> string \<Rightarrow> jsval" where
  "jsGet obj k = (case map_of obj k of Some v \<Rightarrow> v | None \<Rightarrow> JUndefined)"

definition jsHas :: "jsobj \<Rightarrow> string \<Rightarrow> bool" where
  "jsHas obj k = (map_of obj k \<noteq> None)"

definition jsKeys :: "('k \<times> 'v) list \<Rightarrow> 'k list" where
  "jsKeys obj = map fst obj"

fun truthy :: "jsval \<Rightarrow> bool" where
  "truthy JUndefined = False"
| "truthy JNull = False"
| "truthy (JBool b) = b"
| "truthy (JStr s) = (s \<noteq> [])"
| "truthy (JArr xs) = True"
| "truthy (JFK fk) = True"

text \<open>String conversion, as string concatenation and template literals perform it.\<close>

definition optString :: "string option \<Rightarrow> string" where
  "optString x = (case x of None \<Rightarrow> ''undefined'' | Some s \<Rightarrow> s)"

fun toStringJS :: "jsval \<Rightarrow> string" where
  "toStringJS JUndefined = ''undefined''"
| "toStringJS JNull = ''null''"
| "toStringJS (JBool b) = (if b then ''true'' else ''false'')"
| "toStringJS (JStr s) = s"
| "toStringJS (JArr xs) = joinWith '','' xs"
| "toStringJS (JFK fk) = ''[object Object]''"

definition boolOrStringVal :: "boolOrString \<Rightarrow> jsval" where
  "boolOrStringVal u = (case u of B b \<Rightarrow> JBool b | S s \<Rightarrow> JStr s)"

section \<open>The type mappers\<close>

text \<open>\<^verbatim>\<open>getEnumValues\<close> (lines 627-635). \<^verbatim>\<open>special.map\<close> exists on arrays only, and
  \<^verbatim>\<open>type.substring\<close> on strings only.\<close>

definition getEnumValues :: "jsobj \<Rightarrow> error + string list" where
  "getEnumValues fieldObj =
     (if truthy (jsGet fieldObj ''special'') then
        (case jsGet fieldObj ''special'' of
           JArr vs \<Rightarrow> Inr (map (\<lambda>v. [DQ] @ v @ [DQ]) vs)
         | _ \<Rightarrow> Inl TypeError)
      else
        (case jsGet fieldObj ''type'' of
           JStr t \<Rightarrow> Inr (splitOn CHR '','' (substring t 5 (int (length t) - 1)))
         | _ \<Rightarrow> Inl TypeError))"

definition orEmpty :: "string option \<Rightarrow> string" where
  "orEmpty m = (case m of None \<Rightarrow> [] | Some s \<Rightarrow> s)"

text \<open>
  \<^verbatim>\<open>getSqType\<close> (lines 454-540), the ORM type mapper. The array rule calls the function again
  on the \<^verbatim>\<open>elementType\<close> attribute of the same object, and again if that one reads
  \<open>array...\<close> too: a recursion that need not end, so the result is an option, \<open>None\<close> for
  a call that does not return. The rules are tried in the order of the source.
\<close>

partial_function (option) getSqType :: "jsobj \<Rightarrow> string \<Rightarrow> (error + jsval) option" where
  "getSqType fieldObj attr =
     (case jsGet fieldObj attr of
        JUndefined \<Rightarrow> Some (Inl TypeError)
      | JNull \<Rightarrow> Some (Inl TypeError)
      | JBool b \<Rightarrow> Some (Inr (JBool b))
      | JArr xs \<Rightarrow> Some (Inr (JArr xs))
      | JFK fk \<Rightarrow> Some (Inr (JFK fk))
      | JStr attrValue \<Rightarrow>
         (let ty = toLowerCase attrValue;
              len = matchLength ty;
              precision = matchPrecision ty;
              typematch = firstAlternative
                [''bigint'', ''smallint'', ''mediumint'', ''tinyint'', ''int''] ty
          in
          if ty = ''boolean'' \<or> ty = ''bit(1)'' \<or> ty = ''bit'' \<or> ty = ''tinyint(1)'' then
            Some (Inr (JStr ''DataTypes.BOOLEAN''))
          else if ty = ''numrange'' then
            Some (Inr (JStr ''DataTypes.RANGE(DataTypes.DECIMAL)''))
          else if ty = ''int4range'' then
            Some (Inr (JStr ''DataTypes.RANGE(DataTypes.INTEGER)''))
          else if ty = ''int8range'' then
            Some (Inr (JStr ''DataTypes.RANGE(DataTypes.BIGINT)''))
          else if ty = ''daterange'' then
            Some (Inr (JStr ''DataTypes.RANGE(DataTypes.DATEONLY)''))
          else if ty = ''tsrange'' \<or> ty = ''tstzrange'' then
            Some (Inr (JStr ''DataTypes.RANGE(DataTypes.DATE)''))
          else if typematch \<noteq> None then
            Some (Inr (JStr (''DataTypes.''
              @ (if the typematch = ''int'' then ''INTEGER'' else toUpperCase (the typematch))
              @ (if sublist ''unsigned'' (toLowerCase ty) then ''.UNSIGNED'' else [])
              @ (if sublist ''zerofill'' (toLowerCase ty) then ''.ZEROFILL'' else []))))
          else if ty = ''nvarchar(max)'' \<or> ty = ''varchar(max)'' then
            Some (Inr (JStr ''DataTypes.TEXT''))
          else if containsAny [''nvarchar'', ''varchar'', ''string'', ''varying''] ty then
            Some (Inr (JStr (''DataTypes.STRING'' @ orEmpty len)))
          else if startsWithAny [''nchar'', ''char''] ty then
            Some (Inr (JStr (''DataTypes.CHAR'' @ orEmpty len)))
          else if prefix ''real'' ty then
            Some (Inr (JStr ''DataTypes.REAL''))
          else if suffix ''text'' ty then
            Some (Inr (JStr (''DataTypes.TEXT'' @ orEmpty len)))
          else if ty = ''date'' then
            Some (Inr (JStr ''DataTypes.DATEONLY''))
          else if startsWithAny [''date'', ''timestamp''] ty then
            Some (Inr (JStr (''DataTypes.DATE'' @ orEmpty len)))
          else if startsWithAny [''time''] ty then
            Some (Inr (JStr ''DataTypes.TIME''))
          else if startsWithAny [''float'', ''float4''] ty then
            Some (Inr (JStr (''DataTypes.FLOAT'' @ orEmpty precision)))
          else if startsWithAny [''decimal'', ''numeric''] ty then
            Some (Inr (JStr (''DataTypes.DECIMAL'' @ orEmpty precision)))
          else if prefix ''money'' ty then
            Some (Inr (JStr ''DataTypes.DECIMAL(19,4)''))
          else if prefix ''smallmoney'' ty then
            Some (Inr (JStr ''DataTypes.DECIMAL(10,4)''))
          else if startsWithAny [''float8'', ''double''] ty then
            Some (Inr (JStr (''DataTypes.DOUBLE'' @ orEmpty precision)))
          else if prefix ''uuid'' ty \<or> sublist ''uniqueidentifier'' ty then
            Some (Inr (JStr ''DataTypes.UUID''))
          else if prefix ''jsonb'' ty then
            Some (Inr (JStr ''DataTypes.JSONB''))
          else if prefix ''json'' ty then
            Some (Inr (JStr ''DataTypes.JSON''))
          else if prefix ''geometry'' ty then
            Some (Inr (JStr (''DataTypes.GEOMETRY''
              @ (if truthy (jsGet fieldObj ''elementType'')
                 then ''('' @ toStringJS (jsGet fieldObj ''elementType'') @ '')'' else []))))
          else if prefix ''geography'' ty then
            Some (Inr (JStr (''DataTypes.GEOGRAPHY''
              @ (if truthy (jsGet fieldObj ''elementType'')
                 then ''('' @ toStringJS (jsGet fieldObj ''elementType'') @ '')'' else []))))
          else if prefix ''array'' ty then
            Option.bind (getSqType fieldObj ''elementType'')
              (\<lambda>r. Some (bindE r
                 (\<lambda>eltype. Inr (JStr (''DataTypes.ARRAY('' @ toStringJS eltype @ '')'')))))
          else if containsAny [''binary'', ''image'', ''blob''] ty then
            Some (Inr (JStr ''DataTypes.BLOB''))
          else if prefix ''hstore'' ty then
            Some (Inr (JStr ''DataTypes.HSTORE''))
          else if matchesEnum ty then
            Some (bindE (getEnumValues fieldObj)
              (\<lambda>enumValues. Inr (JStr (''DataTypes.ENUM('' @ joinWith '','' enumValues @ '')''))))
          else Some (Inr JNull)))"

declare getSqType.simps [code]

text \<open>
  \<^verbatim>\<open>getTypeScriptFieldType\<close> (lines 596-625), the static-type mapper. The result pairs what
  the call returns or throws with the lines it writes to the console. The array rule recurses
  on \<^verbatim>\<open>elementType\<close> as \<^verbatim>\<open>getSqType\<close> does, so the result is an option again.
\<close>

partial_function (option) getTypeScriptFieldType ::
    "jsobj \<Rightarrow> string \<Rightarrow> ((error + string) \<times> string list) option" where
  "getTypeScriptFieldType fieldObj attr =
     (let rawFieldType = (if truthy (jsGet fieldObj attr) then jsGet fieldObj attr else JStr []);
          fieldType = toLowerCase (toStringJS rawFieldType)
      in
      if isArray fieldType then
        Option.bind (getTypeScriptFieldType fieldObj ''elementType'')
          (\<lambda>r. Some (bindE (fst r) (\<lambda>eltype. Inr (eltype @ ''[]'')), snd r))
      else if jsGet fieldObj ''type'' = JStr ''TINYINT(1)'' then Some (Inr ''boolean'', [])
      else if isNumber fieldType then Some (Inr ''number'', [])
      else if isBoolean fieldType then Some (Inr ''boolean'', [])
      else if isDate fieldType then Some (Inr ''Date'', [])
      else if isString fieldType then Some (Inr ''string'', [])
      else if isEnum fieldType then
        Some (bindE (getEnumValues fieldObj) (\<lambda>values. Inr (joinWith '' | '' values)), [])
      else if fieldType = ''json'' then Some (Inr ''JSONValue'', [])
      else
        Some (Inr ''any'',
          [''Missing TypeScript type: ''
             @ (if fieldType \<noteq> [] then fieldType else toStringJS (jsGet fieldObj ''type''))]))"

declare getTypeScriptFieldType.simps [code]

section \<open>The generator\<close>

text \<open>
  \<^verbatim>\<open>DialectOptions\<close>, \<^verbatim>\<open>Relation\<close>, \<^verbatim>\<open>IndexSpec\<close>, \<^verbatim>\<open>TableData\<close> and \<^verbatim>\<open>AutoOptions\<close>
  are declared in files that are not part of the sources at hand; the records have the members
  the generator reads. An optional member is an option, \<open>None\<close> for \<^verbatim>\<open>undefined\<close>.
\<close>

record DialectOptions =
  name :: string
  hasSchema :: bool
  canAliasPK :: bool
  dialectIsSerialKey :: "(jsobj \<Rightarrow> bool) option"

record Relation =
  parentId :: string
  parentModel :: string
  parentProp :: string
  childId :: string
  childModel :: string
  childProp :: string
  isOne :: bool
  isM2M :: bool
  joinModel :: "string option"

record IndexField =
  attribute :: string
  collate :: "string option"
  fieldLength :: "string option"
  order :: "string option"

record IndexSpec =
  indexName :: "string option"
  indexUnique :: bool
  indexType :: "string option"
  indexFields :: "IndexField list"

record AutoOptions =
  indentation :: "nat option"
  spaces :: "bool option"
  lang :: "string option"
  caseModel :: "string option"
  caseProp :: "string option"
  caseFile :: "string option"
  additional :: "jsobj option"
  schema :: "string option"
  singularize :: bool
  noAlias :: "bool option"

record TableData =
  td_tables :: "(string \<times> (string \<times> jsobj) list) list"
  td_foreignKeys :: "(string \<times> (string \<times> FKSpec) list) list"
  td_hasTriggerTables :: "(string \<times> bool) list"
  td_indexes :: "(string \<times> IndexSpec list) list"
  td_relations :: "Relation list"

text \<open>
  The fields of the class \<^verbatim>\<open>AutoGenerator\<close> (lines 8-26): the state of a run. The private
  methods \<^verbatim>\<open>getTypeScriptPrimaryKeys\<close> and \<^verbatim>\<open>addSchemaForRelations\<close> are never called and have
  no counterpart here.
\<close>

record AutoGenerator =
  dialect :: DialectOptions
  tables :: "(string \<times> (string \<times> jsobj) list) list"
  foreignKeys :: "(string \<times> (string \<times> FKSpec) list) list"
  hasTriggerTables :: "(string \<times> bool) list"
  indexes :: "(string \<times> IndexSpec list) list"
  relations :: "Relation list"
  space :: "string list"
  options :: AutoOptions

text \<open>
  \<^verbatim>\<open>recase\<close>, \<^verbatim>\<open>qNameSplit\<close> and \<^verbatim>\<open>pluralize\<close> are imported from \<^verbatim>\<open>./types\<close>, which is
  not part of the sources at hand: they are parameters of the model. \<^verbatim>\<open>recase\<close> takes the
  case option, the name and the singularize flag (\<open>False\<close> where the call leaves it out);
  \<^verbatim>\<open>qNameSplit\<close> returns the schema name, or \<^verbatim>\<open>null\<close>, and the table name.
\<close>

record Imports =
  recase :: "string option \<Rightarrow> string \<Rightarrow> bool \<Rightarrow> string"
  qNameSplit :: "string \<Rightarrow> string option \<times> string"
  pluralize :: "string \<Rightarrow> string"

text \<open>The constructor (lines 28-47). \<open>space ! i\<close> is \<open>i\<close> copies of the indentation unit.\<close>

definition indentUnit :: "AutoOptions \<Rightarrow> string" where
  "indentUnit opts =
     replicate
       (case indentation opts of None \<Rightarrow> 2 | Some n \<Rightarrow> if n = 0 then 2 else n)
       (if spaces opts = Some True then CHR '' '' else TAB)"

definition newAutoGenerator :: "TableData \<Rightarrow> DialectOptions \<Rightarrow> AutoOptions \<Rightarrow> AutoGenerator" where
  "newAutoGenerator tableData d opts =
     \<lparr> dialect = d,
       tables = td_tables tableData,
       foreignKeys = td_foreignKeys tableData,
       hasTriggerTables = td_hasTriggerTables tableData,
       indexes = td_indexes tableData,
       relations = td_relations tableData,
       space = map (\<lambda>i. concat (replicate i (indentUnit opts))) [0..<6],
       options = opts\<lparr>lang := Some (case lang opts of None \<Rightarrow> ''es5''
                                     | Some l \<Rightarrow> if l = [] then ''es5'' else l)\<rparr> \<rparr>"

text \<open>\<^verbatim>\<open>this.space[i]\<close>; an index outside the array reads \<^verbatim>\<open>undefined\<close>.\<close>

definition sp :: "AutoGenerator \<Rightarrow> nat \<Rightarrow> string" where
  "sp g i = (if i < length (space g) then space g ! i else ''undefined'')"

text \<open>\<^verbatim>\<open>makeHeaderTemplate\<close> (lines 49-75).\<close>

definition makeHeaderTemplate :: "AutoGenerator \<Rightarrow> string" where
  "makeHeaderTemplate g =
     (if lang (options g) = Some ''ts'' then
        ''import * as Sequelize from '' @ [SQ] @ ''sequelize'' @ [SQ] @ '';'' @ [NL]
        @ ''import { DataTypes, Model, Optional } from '' @ [SQ] @ ''sequelize'' @ [SQ] @ '';'' @ [NL]
      else if lang (options g) = Some ''es6'' then
        ''const Sequelize = require('' @ [SQ] @ ''sequelize'' @ [SQ] @ '');'' @ [NL]
        @ ''module.exports = (sequelize, DataTypes) => {'' @ [NL]
        @ sp g 1 @ ''return #TABLE#.init(sequelize, DataTypes);'' @ [NL]
        @ ''}'' @ [NL, NL]
        @ ''class #TABLE# extends Sequelize.Model {'' @ [NL]
        @ sp g 1 @ ''static init(sequelize, DataTypes) {'' @ [NL]
        @ sp g 1 @ ''super.init({'' @ [NL]
      else if lang (options g) = Some ''esm'' then
        ''import _sequelize from '' @ [SQ] @ ''sequelize'' @ [SQ] @ '';'' @ [NL]
        @ ''const { Model, Sequelize } = _sequelize;'' @ [NL, NL]
        @ ''export default class #TABLE# extends Model {'' @ [NL]
        @ sp g 1 @ ''static init(sequelize, DataTypes) {'' @ [NL]
        @ sp g 1 @ ''super.init({'' @ [NL]
      else
        ''import { DataTypes, Model } from '' @ [SQ] @ ''sequelize'' @ [SQ] @ '';'' @ [NL]
        @ ''import { sequelize } from '' @ [SQ] @ ''../../infrastructure/db'' @ [SQ] @ '';'' @ [NL])"

text \<open>
  \<^verbatim>\<open>isTimestampField\<close> and \<^verbatim>\<open>isParanoidField\<close> (lines 637-652). Both read members of
  \<^verbatim>\<open>options.additional\<close> without a guard and throw when it is undefined.
\<close>

definition isTimestampField :: "AutoGenerator \<Rightarrow> string \<Rightarrow> error + bool" where
  "isTimestampField g field =
     (case additional (options g) of
        None \<Rightarrow> Inl TypeError
      | Some a \<Rightarrow>
          if jsGet a ''timestamps'' = JBool False then Inr False
          else Inr (((\<not> truthy (jsGet a ''createdAt'') \<and> toLowerCase field = ''createdat'')
                      \<or> jsGet a ''createdAt'' = JStr field)
                    \<or> ((\<not> truthy (jsGet a ''updatedAt'') \<and> toLowerCase field = ''updatedat'')
                      \<or> jsGet a ''updatedAt'' = JStr field)))"

definition isParanoidField :: "AutoGenerator \<Rightarrow> string \<Rightarrow> error + bool" where
  "isParanoidField g field =
     (case additional (options g) of
        None \<Rightarrow> Inl TypeError
      | Some a \<Rightarrow>
          if jsGet a ''timestamps'' = JBool False \<or> jsGet a ''paranoid'' = JBool False
          then Inr False
          else Inr ((\<not> truthy (jsGet a ''deletedAt'') \<and> toLowerCase field = ''deletedat'')
                    \<or> jsGet a ''deletedAt'' = JStr field))"

section \<open>Column attributes: \<^verbatim>\<open>addField\<close>\<close>

text \<open>A loop whose body may throw: the first error ends it.\<close>

fun foldE :: "('s \<Rightarrow> 'a \<Rightarrow> error + 's) \<Rightarrow> 'a list \<Rightarrow> 's \<Rightarrow> error + 's" where
  "foldE f [] s = Inr s"
| "foldE f (x # xs) s = bindE (f s x) (foldE f xs)"

definition asFK :: "jsval \<Rightarrow> FKSpec option" where
  "asFK v = (case v of JFK fk \<Rightarrow> Some fk | _ \<Rightarrow> None)"

text \<open>\<^verbatim>\<open>.replace(/^{/, '').replace(/}$/, '')\<close> (line 336).\<close>

definition stripBraces :: "string \<Rightarrow> string" where
  "stripBraces s =
     (let s1 = (if prefix ''{'' s then tl s else s)
      in if suffix ''}'' s1 then butlast s1 else s1)"

text \<open>
  The conversion of a string default (lines 330-362): \<open>field_type\<close> is the lower-cased type
  of the column, \<open>defaultVal\<close> the default after \<^verbatim>\<open>escapeSpecial\<close>. The branches are in the
  order of the source.
\<close>

definition stringDefaultText :: "jsobj \<Rightarrow> string \<Rightarrow> string \<Rightarrow> string" where
  "stringDefaultText fieldObj field_type defaultVal =
     (if field_type = ''bit(1)'' \<or> field_type = ''bit'' \<or> field_type = ''boolean'' then
        (if sublist ''1'' defaultVal \<or> sublist ''true'' (toLowerCase defaultVal)
         then ''true'' else ''false'')
      else if isArray field_type then
        (let val_text = stripBraces defaultVal;
             quoted = (if val_text \<noteq> [] \<and> isString (toStringJS (jsGet fieldObj ''elementType''))
                       then joinWith '','' (map (\<lambda>s. [DQ] @ s @ [DQ]) (splitOn CHR '','' val_text))
                       else val_text)
         in ''['' @ quoted @ '']'')
      else if isNumber field_type \<or> prefix ''json'' field_type then
        stripParens defaultVal
      else if field_type = ''uuid''
              \<and> (defaultVal = ''gen_random_uuid()'' \<or> defaultVal = ''uuid_generate_v4()'') then
        ''DataTypes.UUIDV4''
      else if suffix ''()'' defaultVal \<or> suffix ''())'' defaultVal then
        ''Sequelize.Sequelize.fn('' @ [SQ] @ stripParens defaultVal @ [SQ] @ '')''
      else if prefix ''date'' field_type \<or> prefix ''timestamp'' field_type then
        (if toLowerCase defaultVal \<in> set [''current_timestamp'', ''current_date'',
               ''current_time'', ''localtime'', ''localtimestamp'']
         then ''Sequelize.Sequelize.literal('' @ [SQ] @ defaultVal @ [SQ] @ '')''
         else [DQ] @ defaultVal @ [DQ])
      else [DQ] @ defaultVal @ [DQ])"

text \<open>
  The \<^verbatim>\<open>defaultValue\<close> branch of the attribute loop (lines 310-363): \<open>Inr None\<close> when the
  callback returns without writing a default, \<open>Inr (Some val_text)\<close> when it goes on to write
  \<open>val_text\<close>. \<^verbatim>\<open>defaultVal.toLowerCase()\<close> and \<^verbatim>\<open>fieldObj.type.toLowerCase()\<close> throw on
  a value that is not a string.
\<close>

definition defaultValueText :: "AutoGenerator \<Rightarrow> jsobj \<Rightarrow> bool \<Rightarrow> error + string option" where
  "defaultValueText g fieldObj isSerial =
     bindE
       (let defaultVal = jsGet fieldObj ''defaultValue'' in
        if name (dialect g) = ''mssql'' \<and> truthy defaultVal then
          (case defaultVal of
             JStr s \<Rightarrow> Inr (if toLowerCase s = ''(newid())'' then JNull else defaultVal)
           | _ \<Rightarrow> Inl TypeError)
        else Inr defaultVal)
       (\<lambda>defaultVal1.
          let defaultVal =
                (if name (dialect g) = ''mssql''
                    \<and> (defaultVal1 = JStr ''(NULL)'' \<or> defaultVal1 = JStr ''NULL''
                         \<or> defaultVal1 = JUndefined)
                 then JNull else defaultVal1)
          in
          if defaultVal = JNull \<or> defaultVal = JUndefined then Inr None
          else if isSerial then Inr None
          else
            (case defaultVal of
               JStr d \<Rightarrow>
                 (case jsGet fieldObj ''type'' of
                    JStr t \<Rightarrow> Inr (Some (stringDefaultText fieldObj (toLowerCase t) (escapeSpecial d)))
                  | _ \<Rightarrow> Inl TypeError)
             | v \<Rightarrow> Inr (Some (toStringJS v))))"

text \<open>The auto-increment lines, written by lines 270-276 and again by lines 299-304.\<close>

definition autoIncrementText :: "AutoGenerator \<Rightarrow> jsobj \<Rightarrow> string" where
  "autoIncrementText g fieldObj =
     sp g 3 @ ''autoIncrement: true,'' @ [NL]
     @ (if name (dialect g) = ''postgres''
           \<and> (case asFK (jsGet fieldObj ''foreignKey'') of
                 Some fk \<Rightarrow> isPrimaryKey fk
                   \<and> (generation fk = Some ''ALWAYS'' \<or> generation fk = Some ''BY DEFAULT'')
               | None \<Rightarrow> False)
        then sp g 3 @ ''autoIncrementIdentity: true,'' @ [NL] else [])"

text \<open>
  The body of the attribute loop (lines 262-385), on the text written so far and the flag
  \<^verbatim>\<open>wroteAutoIncrement\<close>. An attribute that is skipped keeps what the auto-increment block
  at the head of the body has written.
\<close>

definition addFieldAttr ::
    "AutoGenerator \<Rightarrow> jsobj \<Rightarrow> FKSpec option \<Rightarrow> bool \<Rightarrow> string \<times> bool \<Rightarrow> string
       \<Rightarrow> error + (string \<times> bool)" where
  "addFieldAttr g fieldObj foreignKey isSerial acc attr =
     (if attr = ''special'' \<or> attr = ''elementType'' \<or> attr = ''unique'' then Inr acc
      else
        let str = (if isSerial \<and> \<not> snd acc then fst acc @ autoIncrementText g fieldObj
                   else fst acc);
            wrote = (if isSerial \<and> \<not> snd acc then True else snd acc)
        in
        if attr = ''foreignKey'' then
          (if (case foreignKey of Some fk \<Rightarrow> isForeignKey fk | None \<Rightarrow> False) then
             (case jsGet fieldObj attr of
                JFK k \<Rightarrow>
                  Inr (str @ sp g 3 @ ''references: {'' @ [NL]
                        @ sp g 4 @ ''model: '' @ [SQ] @ optString (target_table k) @ [SQ]
                        @ '','' @ [NL]
                        @ sp g 4 @ ''key: '' @ [SQ] @ optString (target_column k) @ [SQ] @ [NL]
                        @ sp g 3 @ ''}'' @ '','' @ [NL], wrote)
              | _ \<Rightarrow> Inl TypeError)
           else Inr (str, wrote))
        else if attr = ''references'' then Inr (str, wrote)
        else if attr = ''primaryKey'' then
          (if jsGet fieldObj attr = JBool True then
             (if \<not> jsHas fieldObj ''foreignKey'' then
                Inr (str @ sp g 3 @ ''primaryKey: true'' @ '','' @ [NL], wrote)
              else
                (case jsGet fieldObj ''foreignKey'' of
                   JUndefined \<Rightarrow> Inl TypeError
                 | JNull \<Rightarrow> Inl TypeError
                 | JFK k \<Rightarrow>
                     if isPrimaryKey k
                     then Inr (str @ sp g 3 @ ''primaryKey: true'' @ '','' @ [NL], wrote)
                     else Inr (str, wrote)
                 | _ \<Rightarrow> Inr (str, wrote)))
           else Inr (str, wrote))
        else if attr = ''autoIncrement'' then
          (if jsGet fieldObj attr = JBool True \<and> \<not> wrote
           then Inr (str @ autoIncrementText g fieldObj, True)
           else Inr (str, wrote))
        else if attr = ''allowNull'' then
          Inr (str @ sp g 3 @ attr @ '': '' @ toStringJS (jsGet fieldObj attr) @ '','' @ [NL], wrote)
        else if attr = ''defaultValue'' then
          bindE (defaultValueText g fieldObj isSerial)
            (\<lambda>r. case r of
                    None \<Rightarrow> Inr (str, wrote)
                  | Some val_text \<Rightarrow>
                      Inr (str @ sp g 3 @ attr @ '': '' @ val_text @ '','' @ [NL], wrote))
        else if attr = ''comment'' \<and> \<not> truthy (jsGet fieldObj attr) then Inr (str, wrote)
        else
          bindE
            (if attr \<noteq> ''type'' then Inr JNull
             else (case getSqType fieldObj attr of None \<Rightarrow> Inl RangeError | Some r \<Rightarrow> r))
            (\<lambda>val0.
               let val = (if val0 = JNull \<or> val0 = JUndefined then
                            (case jsGet fieldObj attr of
                               JStr v \<Rightarrow> JStr ([DQ] @ escapeSpecial v @ [DQ])
                             | v \<Rightarrow> v)
                          else val0)
               in Inr (str @ sp g 3 @ attr @ '': '' @ toStringJS val @ '','' @ [NL], wrote)))"

text \<open>\<^verbatim>\<open>fieldObj.unique || fieldObj.foreignKey && fieldObj.foreignKey.isUnique\<close> (line 252).\<close>

definition uniqueOf :: "jsobj \<Rightarrow> jsval" where
  "uniqueOf fieldObj =
     (if truthy (jsGet fieldObj ''unique'') then jsGet fieldObj ''unique''
      else if truthy (jsGet fieldObj ''foreignKey'') then
        (case jsGet fieldObj ''foreignKey'' of
           JFK fk \<Rightarrow> boolOrStringVal (isUnique fk)
         | _ \<Rightarrow> JUndefined)
      else jsGet fieldObj ''foreignKey'')"

text \<open>Line 254: the serial-key test, by the foreign-key object or by the dialect.\<close>

definition isSerialKeyOf :: "AutoGenerator \<Rightarrow> jsobj \<Rightarrow> bool" where
  "isSerialKeyOf g fieldObj =
     ((case asFK (jsGet fieldObj ''foreignKey'') of Some fk \<Rightarrow> isSerialKey fk | None \<Rightarrow> False)
      \<or> (case dialectIsSerialKey (dialect g) of Some f \<Rightarrow> f fieldObj | None \<Rightarrow> False))"

text \<open>Lines 391-394: the uniqueness attribute.\<close>

definition uniqueText :: "AutoGenerator \<Rightarrow> jsval \<Rightarrow> string" where
  "uniqueText g unique =
     (if truthy unique then
        sp g 3 @ ''unique: ''
        @ (case unique of
             JStr u \<Rightarrow> [DQ] @ replaceChar DQ [BSL, DQ] u @ [DQ]
           | v \<Rightarrow> toStringJS v)
        @ '','' @ [NL]
      else [])"

text \<open>Lines 396-402: the source-column override.\<close>

definition fieldOverrideText :: "AutoGenerator \<Rightarrow> jsobj \<Rightarrow> string \<Rightarrow> string \<Rightarrow> string" where
  "fieldOverrideText g fieldObj field fieldName =
     (if field \<noteq> fieldName then
        (if \<not> truthy (jsGet fieldObj ''primaryKey'') \<or> canAliasPK (dialect g)
            \<or> toUpperCase field \<noteq> toUpperCase fieldName
         then sp g 3 @ ''field: '' @ [SQ] @ field @ [SQ] @ '','' @ [NL]
         else [])
      else [])"

text \<open>\<^verbatim>\<open>.replace(/,+$/, '')\<close> (line 405).\<close>

definition stripTrailingCommas :: "string \<Rightarrow> string" where
  "stripTrailingCommas s = rev (dropWhile (\<lambda>c. c = CHR '','') (rev s))"

text \<open>
  The text of \<^verbatim>\<open>addField\<close> (lines 247-407), for the column descriptor \<open>fieldObj\<close> as it
  is after line 245.
\<close>

definition addFieldText ::
    "Imports \<Rightarrow> AutoGenerator \<Rightarrow> string \<Rightarrow> jsobj \<Rightarrow> FKSpec option \<Rightarrow> error + string" where
  "addFieldText E g field fieldObj foreignKey =
     (let fieldName = recase E (caseProp (options g)) field False;
          str0 = quoteName fieldName @ '': {'' @ [NL];
          unique = uniqueOf fieldObj;
          isSerial = isSerialKeyOf g fieldObj
      in
      bindE (foldE (addFieldAttr g fieldObj foreignKey isSerial) (jsKeys fieldObj) (str0, False))
        (\<lambda>acc.
           bindE (isTimestampField g field)
             (\<lambda>ts.
                let str1 = fst acc
                      @ (if ts then sp g 3 @ ''defaultValue: () => context.timestamp,'' @ [NL]
                         else []);
                    str2 = str1 @ uniqueText g unique;
                    str3 = str2 @ fieldOverrideText g fieldObj field fieldName;
                    str4 = stripTrailingCommas (trim str3) @ [NL]
                in Inr (sp g 2 @ str4 @ sp g 2 @ ''},'' @ [NL]))))"

text \<open>
  \<^verbatim>\<open>addField\<close> (lines 234-408). Lines 240-245 look the foreign key of the column up and, when
  there is one, store it in the column descriptor of \<^verbatim>\<open>this.tables\<close>: the generator is
  returned with the result. A table or column that does not exist makes line 244 or 252 throw.
\<close>

definition fkLookup :: "AutoGenerator \<Rightarrow> string \<Rightarrow> string \<Rightarrow> FKSpec option" where
  "fkLookup g table field =
     (case map_of (foreignKeys g) table of None \<Rightarrow> None | Some m \<Rightarrow> map_of m field)"

definition setField ::
    "string \<Rightarrow> string \<Rightarrow> jsobj \<Rightarrow> (string \<times> (string \<times> jsobj) list) list
       \<Rightarrow> (string \<times> (string \<times> jsobj) list) list" where
  "setField table field fieldObj ts =
     AList.map_entry table (AList.map_entry field (\<lambda>_. fieldObj)) ts"

definition addField ::
    "Imports \<Rightarrow> AutoGenerator \<Rightarrow> string \<Rightarrow> string \<Rightarrow> (error + string) \<times> AutoGenerator" where
  "addField E g table field =
     (case map_of (tables g) table of
        None \<Rightarrow> (Inl TypeError, g)
      | Some cols \<Rightarrow>
         (case map_of cols field of
            None \<Rightarrow> (Inl TypeError, g)
          | Some fieldObj0 \<Rightarrow>
             (case fkLookup g table field of
                None \<Rightarrow> (addFieldText E g field fieldObj0 None, g)
              | Some fk \<Rightarrow>
                 (let fieldObj = AList.update ''foreignKey'' (JFK fk) fieldObj0;
                      g' = g\<lparr>tables := setField table field fieldObj (tables g)\<rparr>
                  in (addFieldText E g' field fieldObj (Some fk), g')))))"

section \<open>Indexes: \<^verbatim>\<open>addIndexes\<close>\<close>

definition truthyStr :: "string option \<Rightarrow> bool" where
  "truthyStr x = (case x of None \<Rightarrow> False | Some s \<Rightarrow> s \<noteq> [])"

text \<open>Lines 432-444: one entry of the field list of an index.\<close>

definition indexFieldText :: "AutoGenerator \<Rightarrow> IndexField \<Rightarrow> string" where
  "indexFieldText g ff =
     sp g 5 @ ''{ name: '' @ [DQ] @ attribute ff @ [DQ]
     @ (if truthyStr (collate ff) then '', collate: '' @ [DQ] @ optString (collate ff) @ [DQ]
        else [])
     @ (if truthyStr (fieldLength ff) then '', length: '' @ optString (fieldLength ff) else [])
     @ (if truthyStr (order ff) \<and> order ff \<noteq> Some ''ASC''
        then '', order: '' @ [DQ] @ optString (order ff) @ [DQ] else [])
     @ '' },'' @ [NL]"

text \<open>Lines 416-447: one index.\<close>

definition indexText :: "AutoGenerator \<Rightarrow> IndexSpec \<Rightarrow> string" where
  "indexText g idx =
     sp g 3 @ ''{'' @ [NL]
     @ (if truthyStr (indexName idx)
        then sp g 4 @ ''name: '' @ [DQ] @ optString (indexName idx) @ [DQ] @ '','' @ [NL] else [])
     @ (if indexUnique idx then sp g 4 @ ''unique: true,'' @ [NL] else [])
     @ (if truthyStr (indexType idx) then
          (if optString (indexType idx) \<in> set [''UNIQUE'', ''FULLTEXT'', ''SPATIAL'']
           then sp g 4 @ ''type: '' @ [DQ] @ optString (indexType idx) @ [DQ] @ '','' @ [NL]
           else sp g 4 @ ''using: '' @ [DQ] @ optString (indexType idx) @ [DQ] @ '','' @ [NL])
        else [])
     @ sp g 4 @ ''fields: ['' @ [NL]
     @ concat (map (indexFieldText g) (indexFields idx))
     @ sp g 4 @ '']'' @ [NL]
     @ sp g 3 @ ''},'' @ [NL]"

text \<open>\<^verbatim>\<open>addIndexes\<close> (lines 410-451).\<close>

definition addIndexes :: "AutoGenerator \<Rightarrow> string \<Rightarrow> string" where
  "addIndexes g table =
     (case map_of (indexes g) table of
        None \<Rightarrow> []
      | Some idxs \<Rightarrow>
          if idxs \<noteq> [] then
            sp g 2 @ ''indexes: ['' @ [NL]
            @ concat (map (indexText g) idxs)
            @ sp g 2 @ ''],'' @ [NL]
          else [])"

section \<open>One model: \<^verbatim>\<open>addTable\<close>\<close>

text \<open>\<^verbatim>\<open>_.keys(this.tables[table])\<close>; lodash gives no keys for \<^verbatim>\<open>undefined\<close>.\<close>

definition tableFields :: "AutoGenerator \<Rightarrow> string \<Rightarrow> string list" where
  "tableFields g table =
     (case map_of (tables g) table of None \<Rightarrow> [] | Some cols \<Rightarrow> jsKeys cols)"

text \<open>
  The loop over the columns (lines 133-138), on the flags \<^verbatim>\<open>timestamps\<close> and
  \<^verbatim>\<open>paranoid\<close> and the text so far. \<^verbatim>\<open>||=\<close> evaluates its right side only while the
  flag is false. The generator is threaded through the calls of \<^verbatim>\<open>addField\<close>; when a call
  throws, the loop ends with the generator as it is then.
\<close>

fun addTableFields ::
    "Imports \<Rightarrow> string \<Rightarrow> string list \<Rightarrow> bool \<times> bool \<times> string \<Rightarrow> AutoGenerator
       \<Rightarrow> (error + bool \<times> bool \<times> string) \<times> AutoGenerator" where
  "addTableFields E table [] acc g = (Inr acc, g)"
| "addTableFields E table (field # rest) (timestamps, paranoid, str) g =
     (case (if timestamps then Inr True else isTimestampField g field) of
        Inl e \<Rightarrow> (Inl e, g)
      | Inr timestamps' \<Rightarrow>
         (case (if paranoid then Inr True else isParanoidField g field) of
            Inl e \<Rightarrow> (Inl e, g)
          | Inr paranoid' \<Rightarrow>
             (case addField E g table field of
                (Inl e, g') \<Rightarrow> (Inl e, g')
              | (Inr txt, g') \<Rightarrow>
                  addTableFields E table rest (timestamps', paranoid', str @ txt) g')))"

text \<open>Lines 160-166: which of the two timestamp columns the model switches off.\<close>

definition timestampColumnsText :: "AutoGenerator \<Rightarrow> bool \<Rightarrow> string list \<Rightarrow> string" where
  "timestampColumnsText g timestamps fs =
     (if timestamps \<and> \<not> List.member fs ''lastModifiedAt''
      then sp g 2 @ ''updatedAt: false,'' @ [NL] else [])
     @ (if timestamps \<and> \<not> List.member fs ''createdAt''
        then sp g 2 @ ''createdAt: false,'' @ [NL] else [])"

text \<open>Lines 144-166: the head of the options block.\<close>

definition tableOptionsText ::
    "AutoGenerator \<Rightarrow> string \<Rightarrow> string option \<Rightarrow> string \<Rightarrow> bool \<Rightarrow> bool \<Rightarrow> string list
       \<Rightarrow> string" where
  "tableOptionsText g table schemaName tableNameOrig timestamps paranoid fs =
     sp g 1 @ ''}, {'' @ [NL]
     @ sp g 2 @ ''tableName: '' @ [SQ] @ tableNameOrig @ [SQ] @ '','' @ [NL]
     @ (if truthyStr schemaName \<and> hasSchema (dialect g)
        then sp g 2 @ ''schema: '' @ [SQ] @ optString schemaName @ [SQ] @ '','' @ [NL] else [])
     @ (if map_of (hasTriggerTables g) table = Some True
        then sp g 2 @ ''hasTrigger: true,'' @ [NL] else [])
     @ sp g 2 @ ''timestamps: '' @ (if timestamps then ''true'' else ''false'') @ '','' @ [NL]
     @ (if paranoid then sp g 2 @ ''paranoid: true,'' @ [NL] else [])
     @ timestampColumnsText g timestamps fs"

text \<open>Lines 169-185: the free-form additional options.\<close>

definition additionalOptionText :: "AutoGenerator \<Rightarrow> string \<Rightarrow> string \<times> jsval \<Rightarrow> string" where
  "additionalOptionText g table kv =
     (let key = fst kv; val = snd kv in
      if key = ''name'' then
        sp g 2 @ ''name: {'' @ [NL]
        @ sp g 3 @ ''singular: '' @ [SQ] @ table @ [SQ] @ '','' @ [NL]
        @ sp g 3 @ ''plural: '' @ [SQ] @ table @ [SQ] @ [NL]
        @ sp g 2 @ ''},'' @ [NL]
      else if key = ''timestamps'' \<or> key = ''paranoid'' then []
      else
        sp g 2 @ key @ '': ''
        @ (case val of JBool b \<Rightarrow> toStringJS val | _ \<Rightarrow> [SQ] @ toStringJS val @ [SQ])
        @ '','' @ [NL])"

definition additionalOptionsText :: "AutoGenerator \<Rightarrow> string \<Rightarrow> string" where
  "additionalOptionsText g table =
     (case additional (options g) of
        None \<Rightarrow> []
      | Some a \<Rightarrow> if a \<noteq> [] then concat (map (additionalOptionText g table) a) else [])"

text \<open>
  The body of the loop over the relations (lines 190-209): the association comments one
  relation adds to the model of the table \<open>tableNameOrig\<close>.
\<close>

definition relationText :: "Imports \<Rightarrow> AutoGenerator \<Rightarrow> string \<Rightarrow> Relation \<Rightarrow> string" where
  "relationText E g tableNameOrig rel =
     (if isM2M rel then
        (if parentModel rel = tableNameOrig then
           (let asprop = pluralize E (childProp rel) in
            sp g 3 @ ''// (autogenerated) models.'' @ parentModel rel
            @ ''.belongsToMany(models.'' @ childModel rel
            @ '', { as: '' @ [SQ] @ asprop @ [SQ]
            @ '', through: models.'' @ optString (joinModel rel)
            @ '', foreignKey: '' @ [DQ] @ parentId rel @ [DQ]
            @ '', otherKey: '' @ [DQ] @ childId rel @ [DQ] @ '' });'' @ [NL])
         else [])
      else
        (if childModel rel = tableNameOrig then
           (let bAlias =
                  (if noAlias (options g) = Some True
                      \<and> toLowerCase (parentModel rel) = toLowerCase (parentProp rel)
                   then [] else ''as: '' @ [DQ] @ parentProp rel @ [DQ] @ '', '')
            in sp g 3 @ ''// (autogenerated) models.'' @ childModel rel
               @ ''.belongsTo(models.'' @ parentModel rel
               @ '', { '' @ bAlias @ ''foreignKey: '' @ [DQ] @ parentId rel @ [DQ] @ ''});'' @ [NL])
         else [])
        @ (if parentModel rel = tableNameOrig then
             (let hasRel = (if isOne rel then ''hasOne'' else ''hasMany'');
                  hAlias =
                    (if noAlias (options g) = Some True
                        \<and> pluralize E (toLowerCase (childModel rel)) = toLowerCase (childProp rel)
                     then [] else ''as: '' @ [DQ] @ childProp rel @ [DQ] @ '', '')
              in sp g 3 @ ''// (autogenerated) models.'' @ parentModel rel
                 @ ''.'' @ hasRel @ ''(models.'' @ childModel rel
                 @ '', { '' @ hAlias @ ''foreignKey: '' @ [DQ] @ parentId rel @ [DQ] @ ''});'' @ [NL])
           else []))"

text \<open>
  \<^verbatim>\<open>addTable\<close> (lines 122-231). Line 187 sets \<^verbatim>\<open>this.options.noAlias\<close> before the
  relations are read, so the generator is returned with the result.
\<close>

definition addTable ::
    "Imports \<Rightarrow> AutoGenerator \<Rightarrow> string \<Rightarrow> (error + string) \<times> AutoGenerator" where
  "addTable E g table =
     (let schemaName = fst (qNameSplit E table);
          tableNameOrig = snd (qNameSplit E table);
          tableName = recase E (caseModel (options g)) tableNameOrig (singularize (options g));
          timestamps0 = (case additional (options g) of
                           None \<Rightarrow> False
                         | Some a \<Rightarrow> jsGet a ''timestamps'' = JBool True);
          fs = tableFields g table
      in
      case addTableFields E table fs (timestamps0, False, []) g of
        (Inl e, g1) \<Rightarrow> (Inl e, g1)
      | (Inr (timestamps, paranoid, str0), g1) \<Rightarrow>
         (let str1 = substring str0 0 (int (length str0) - 2) @ [NL];
              str2 = str1
                @ tableOptionsText g1 table schemaName tableNameOrig timestamps paranoid fs
                @ additionalOptionsText g1 table;
              g2 = g1\<lparr>options := (options g1)\<lparr>noAlias := Some True\<rparr>\<rparr>;
              assoc = concat (map (relationText E g2 tableNameOrig) (relations g2));
              str3 = str2
                @ sp g2 2 @ ''// eslint-disable-next-line'' @ [NL]
                @ sp g2 2 @ ''associate: models => {'' @ [NL]
                @ assoc
                @ sp g2 2 @ ''},'' @ [NL]
                @ addIndexes g2 table;
              str4 = sp g2 2 @ trim str3;
              str5 = substring str4 0 (int (length str4) - 1)
                @ [NL] @ sp g2 1 @ ''}'' @ '');'' @ [NL];
              str6 = str5
                @ (if lang (options g2) \<in> {Some ''es6'', Some ''esm'', Some ''ts''}
                   then sp g2 1 @ ''return '' @ tableName @ '';'' @ [NL]
                        @ sp g2 1 @ ''}'' @ [NL] @ ''}'' @ [NL]
                   else [])
          in (Inr str6, g2)))"

section \<open>Static types and the whole run: \<^verbatim>\<open>generateText\<close>\<close>

text \<open>\<^verbatim>\<open>_.some(xs, p)\<close> for a test that may throw: it stops at the first hit.\<close>

fun someE :: "('a \<Rightarrow> error + bool) \<Rightarrow> 'a list \<Rightarrow> error + bool" where
  "someE p [] = Inr False"
| "someE p (x # xs) = bindE (p x) (\<lambda>b. if b then Inr True else someE p xs)"

text \<open>
  \<^verbatim>\<open>getTypeScriptFieldOptional\<close> (lines 582-585); the timestamp test runs only when the
  column is neither nullable nor has a default.
\<close>

definition getTypeScriptFieldOptional :: "AutoGenerator \<Rightarrow> jsobj \<Rightarrow> string \<Rightarrow> error + bool" where
  "getTypeScriptFieldOptional g fieldObj field =
     (if truthy (jsGet fieldObj ''allowNull'') then Inr True
      else if truthy (jsGet fieldObj ''defaultValue'') \<or> jsGet fieldObj ''defaultValue'' = JStr []
      then Inr True
      else isTimestampField g field)"

text \<open>
  The body of the loop of \<^verbatim>\<open>addTypeScriptFields\<close> (lines 569-578): the line of one column,
  with what the static-type mapper wrote to the console; \<^verbatim>\<open>getIsAutoIncrement\<close> and
  \<^verbatim>\<open>getTypeScriptType\<close> (lines 587-594) are written out in place. A type mapping that does not
  return exhausts the call stack.
\<close>

definition typeScriptFieldLine ::
    "Imports \<Rightarrow> AutoGenerator \<Rightarrow> string \<Rightarrow> bool \<Rightarrow> string \<Rightarrow> (error + string) \<times> string list" where
  "typeScriptFieldLine E g table forFind field =
     (let nm = quoteName (recase E (caseProp (options g)) field False) in
      case Option.bind (map_of (tables g) table) (\<lambda>cols. map_of cols field) of
        None \<Rightarrow> (Inl TypeError, [])
      | Some fieldObj \<Rightarrow>
         (case getTypeScriptFieldOptional g fieldObj field of
            Inl e \<Rightarrow> (Inl e, [])
          | Inr isOptional \<Rightarrow>
             (let isAutoIncrement = truthy (jsGet fieldObj ''autoIncrement'') in
              case getTypeScriptFieldType fieldObj ''type'' of
                None \<Rightarrow> (Inl RangeError, [])
              | Some (Inl e, logs) \<Rightarrow> (Inl e, logs)
              | Some (Inr ty, logs) \<Rightarrow>
                 (let ty' = (if ty = ''Date'' \<and> \<not> forFind then ty @ '' | string'' else ty) in
                  (Inr (sp g 1 @ nm
                        @ (if \<not> forFind \<and> (isOptional \<or> isAutoIncrement) then ''?'' else [])
                        @ '': '' @ ty' @ '';'' @ [NL]), logs)))))"

text \<open>\<^verbatim>\<open>addTypeScriptFields\<close> (lines 565-580): the loop, on the text and the console so far.\<close>

fun typeScriptFieldLines ::
    "Imports \<Rightarrow> AutoGenerator \<Rightarrow> string \<Rightarrow> bool \<Rightarrow> string list \<Rightarrow> string \<times> string list
       \<Rightarrow> (error + string) \<times> string list" where
  "typeScriptFieldLines E g table forFind [] acc = (Inr (fst acc), snd acc)"
| "typeScriptFieldLines E g table forFind (field # rest) acc =
     (case typeScriptFieldLine E g table forFind field of
        (Inl e, logs) \<Rightarrow> (Inl e, snd acc @ logs)
      | (Inr line, logs) \<Rightarrow>
          typeScriptFieldLines E g table forFind rest (fst acc @ line, snd acc @ logs))"

definition addTypeScriptFields ::
    "Imports \<Rightarrow> AutoGenerator \<Rightarrow> string \<Rightarrow> bool \<Rightarrow> (error + string) \<times> string list" where
  "addTypeScriptFields E g table forFind =
     typeScriptFieldLines E g table forFind (tableFields g table) ([], [])"

text \<open>
  \<^verbatim>\<open>str.replace(new RegExp(pat, 'g'), repl)\<close> for a pattern of plain characters (lines
  109-113). In the replacement \<open>$$\<close> stands for a dollar sign, \<open>$&\<close> for the match, \<open>$`\<close> for
  the text before the match and \<open>$'\<close> for the text after it.
\<close>

fun expandReplacement :: "string \<Rightarrow> string \<Rightarrow> string \<Rightarrow> string \<Rightarrow> string" where
  "expandReplacement [] pre matched post = []"
| "expandReplacement [c] pre matched post = [c]"
| "expandReplacement (c # d # cs) pre matched post =
     (if c = CHR ''$'' \<and> d = CHR ''$'' then CHR ''$'' # expandReplacement cs pre matched post
      else if c = CHR ''$'' \<and> d = CHR ''&'' then matched @ expandReplacement cs pre matched post
      else if c = CHR ''$'' \<and> d = CHR 0x60 then pre @ expandReplacement cs pre matched post
      else if c = CHR ''$'' \<and> d = SQ then post @ expandReplacement cs pre matched post
      else c # expandReplacement (d # cs) pre matched post)"

fun replaceAllFrom :: "string \<Rightarrow> string \<Rightarrow> nat \<Rightarrow> string \<Rightarrow> string \<Rightarrow> string" where
  "replaceAllFrom pat repl k pre [] = []"
| "replaceAllFrom pat repl (Suc k) pre (c # cs) = replaceAllFrom pat repl k (pre @ [c]) cs"
| "replaceAllFrom pat repl 0 pre (c # cs) =
     (if prefix pat (c # cs) then
        expandReplacement repl pre pat (drop (length pat) (c # cs))
        @ replaceAllFrom pat repl (length pat - 1) (pre @ [c]) cs
      else c # replaceAllFrom pat repl 0 (pre @ [c]) cs)"

definition replaceAll :: "string \<Rightarrow> string \<Rightarrow> string \<Rightarrow> string" where
  "replaceAll pat repl str = replaceAllFrom pat repl 0 [] str"

text \<open>
  The body of the loop of \<^verbatim>\<open>generateText\<close> (lines 84-115) for one table: the text of the
  model, the console output, and the generator as \<^verbatim>\<open>addTable\<close> leaves it.
  \<^verbatim>\<open>Object.values\<close> throws on \<^verbatim>\<open>undefined\<close>, and \<^verbatim>\<open>tableName[0].toUpperCase()\<close> on an
  empty model name.
\<close>

definition generateTable ::
    "Imports \<Rightarrow> string \<Rightarrow> AutoGenerator \<Rightarrow> string
       \<Rightarrow> ((error + string) \<times> string list) \<times> AutoGenerator" where
  "generateTable E header g table =
     (let tableNameOrig = snd (qNameSplit E table);
          tableName = recase E (caseModel (options g)) tableNameOrig (singularize (options g));
          fs = tableFields g table
      in
      case someE (isTimestampField g) fs of
        Inl e \<Rightarrow> ((Inl e, []), g)
      | Inr hasTimestamp \<Rightarrow>
         (case map_of (tables g) table of
            None \<Rightarrow> ((Inl TypeError, []), g)
          | Some cols \<Rightarrow>
             (let str1 = header
                    @ (if hasTimestamp
                       then ''import { context } from '' @ [SQ] @ ''../../services/context/context''
                            @ [SQ] @ '';'' @ [NL]
                       else [])
                    @ (if list_ex (\<lambda>kv. jsGet (snd kv) ''type'' = JStr ''JSON'') cols
                       then ''import { JSONValue } from '' @ [SQ] @ ''./types'' @ [SQ] @ '';'' @ [NL]
                       else [])
                    @ [NL] @ ''export type #UTABLE#DB = {'' @ [NL]
              in
              case addTypeScriptFields E g table True of
                (Inl e, logs1) \<Rightarrow> ((Inl e, logs1), g)
              | (Inr dbFields, logs1) \<Rightarrow>
                 (case addTypeScriptFields E g table False of
                    (Inl e, logs2) \<Rightarrow> ((Inl e, logs1 @ logs2), g)
                  | (Inr creationFields, logs2) \<Rightarrow>
                     (let str2 = str1 @ dbFields @ ''}'' @ [NL]
                            @ [NL] @ ''export type #UTABLE#CreationDB = {'' @ [NL]
                            @ creationFields @ ''}'' @ [NL]
                            @ [NL]
                            @ ''export type #UTABLE#Model = Model<#UTABLE#DB, #UTABLE#CreationDB> & #UTABLE#DB;''
                            @ [NL]
                            @ [NL]
                            @ ''export const #TABLE#Model = sequelize.define<#UTABLE#Model>(''
                            @ [SQ] @ ''#TABLE#'' @ [SQ] @ '', {'' @ [NL]
                      in
                      case addTable E g table of
                        (Inl e, g') \<Rightarrow> ((Inl e, logs1 @ logs2), g')
                      | (Inr tableText, g') \<Rightarrow>
                         (let str3 = replaceAll ''#TABLE#'' tableName (str2 @ tableText) in
                          if tableName = [] then ((Inl TypeError, logs1 @ logs2), g')
                          else
                            ((Inr (replaceAll ''#UTABLE#''
                                     (upperChar (hd tableName) # tl tableName) str3),
                              logs1 @ logs2), g')))))))"

text \<open>
  \<^verbatim>\<open>generateText\<close> (lines 77-119): the loop over the tables, on the texts and the console so
  far. The result maps each table to its text, in the order of the tables.
\<close>

fun generateTables ::
    "Imports \<Rightarrow> string \<Rightarrow> string list \<Rightarrow> (string \<times> string) list \<times> string list \<Rightarrow> AutoGenerator
       \<Rightarrow> ((error + (string \<times> string) list) \<times> string list) \<times> AutoGenerator" where
  "generateTables E header [] acc g = ((Inr (fst acc), snd acc), g)"
| "generateTables E header (table # rest) acc g =
     (case generateTable E header g table of
        ((Inl e, logs), g') \<Rightarrow> ((Inl e, snd acc @ logs), g')
      | ((Inr str, logs), g') \<Rightarrow>
          generateTables E header rest (AList.update table str (fst acc), snd acc @ logs) g')"

definition generateText ::
    "Imports \<Rightarrow> AutoGenerator
       \<Rightarrow> ((error + (string \<times> string) list) \<times> string list) \<times> AutoGenerator" where
  "generateText E g =
     generateTables E (makeHeaderTemplate g) (jsKeys (tables g)) ([], []) g"

section \<open>What a run may change\<close>

text \<open>
  A column descriptor without its \<^verbatim>\<open>foreignKey\<close> attribute; the tables of two generators agree
  after \<open>eraseForeignKey\<close> when they have the same tables and columns in the same order and every
  column has the same attributes, in the same order, except for \<^verbatim>\<open>foreignKey\<close>.
\<close>

definition eraseForeignKey ::
    "(string \<times> (string \<times> jsobj) list) list \<Rightarrow> (string \<times> (string \<times> jsobj) list) list" where
  "eraseForeignKey ts =
     map (\<lambda>tc. (fst tc, map (\<lambda>fo. (fst fo, AList.delete ''foreignKey'' (snd fo))) (snd tc))) ts"

text \<open>
  The generator \<open>g'\<close> differs from \<open>g\<close> at most in the option \<^verbatim>\<open>noAlias\<close>, which may have
  been set, and in the \<^verbatim>\<open>foreignKey\<close> attributes of the columns.
\<close>

definition unchangedExcept :: "AutoGenerator \<Rightarrow> AutoGenerator \<Rightarrow> bool" where
  "unchangedExcept g g' =
     (dialect g' = dialect g \<and> foreignKeys g' = foreignKeys g
      \<and> hasTriggerTables g' = hasTriggerTables g \<and> indexes g' = indexes g
      \<and> relations g' = relations g \<and> space g' = space g
      \<and> (options g')\<lparr>noAlias := None\<rparr> = (options g)\<lparr>noAlias := None\<rparr>
      \<and> (noAlias (options g') = noAlias (options g) \<or> noAlias (options g') = Some True)
      \<and> eraseForeignKey (tables g') = eraseForeignKey (tables g))"

section \<open>A small schema\<close>

text \<open>
  One table \<open>post\<close> with a column \<open>user_id\<close> that is a foreign key, a one-to-many relation
  whose parent property is the parent model up to letter case, one whose parent property has
  another name, and a many-to-many relation of \<open>post\<close> with itself. The three imported
  functions are stand-ins: \<^verbatim>\<open>recase\<close> lower-cases under the option \<open>l\<close>, \<^verbatim>\<open>qNameSplit\<close> finds
  no schema, \<^verbatim>\<open>pluralize\<close> appends an \<open>s\<close>. The options leave \<^verbatim>\<open>noAlias\<close> unset.
\<close>

definition exampleImports :: Imports where
  "exampleImports =
     \<lparr> recase = (\<lambda>opt s sing. if opt = Some ''l'' then toLowerCase s else s),
       qNameSplit = (\<lambda>q. (None, q)),
       pluralize = (\<lambda>s. s @ ''s'') \<rparr>"

definition exampleDialect :: DialectOptions where
  "exampleDialect =
     \<lparr> name = ''postgres'', hasSchema = True, canAliasPK = False, dialectIsSerialKey = None \<rparr>"

definition exampleOptions :: AutoOptions where
  "exampleOptions =
     \<lparr> indentation = Some 2, spaces = Some True, lang = None, caseModel = None,
       caseProp = Some ''l'', caseFile = None, additional = Some [], schema = None,
       singularize = False, noAlias = None \<rparr>"

definition exampleFK :: FKSpec where
  "exampleFK =
     \<lparr> isForeignKey = True, isSerialKey = False, isPrimaryKey = False, isUnique = B False,
       generation = None, target_table = Some ''user'', target_column = Some ''id'' \<rparr>"

definition exampleBelongsTo :: Relation where
  "exampleBelongsTo =
     \<lparr> parentId = ''user_id'', parentModel = ''user'', parentProp = ''User'',
       childId = ''id'', childModel = ''post'', childProp = ''posts'',
       isOne = False, isM2M = False, joinModel = None \<rparr>"

definition exampleAliased :: Relation where
  "exampleAliased =
     \<lparr> parentId = ''author_id'', parentModel = ''author'', parentProp = ''writer'',
       childId = ''id'', childModel = ''post'', childProp = ''posts'',
       isOne = False, isM2M = False, joinModel = None \<rparr>"

definition exampleSelfM2M :: Relation where
  "exampleSelfM2M =
     \<lparr> parentId = ''from_id'', parentModel = ''post'', parentProp = ''from'',
       childId = ''to_id'', childModel = ''post'', childProp = ''to'',
       isOne = False, isM2M = True, joinModel = Some ''post_link'' \<rparr>"

definition exampleTableData :: TableData where
  "exampleTableData =
     \<lparr> td_tables = [(''post'', [(''user_id'', [(''type'', JStr ''int'')])])],
       td_foreignKeys = [(''post'', [(''user_id'', exampleFK)])],
       td_hasTriggerTables = [],
       td_indexes = [],
       td_relations = [exampleBelongsTo, exampleAliased, exampleSelfM2M] \<rparr>"

definition exampleGenerator :: AutoGenerator where
  "exampleGenerator = newAutoGenerator exampleTableData exampleDialect exampleOptions"

definition mssqlGenerator :: AutoGenerator where
  "mssqlGenerator =
     newAutoGenerator exampleTableData (exampleDialect\<lparr>name := ''mssql''\<rparr>) exampleOptions"

text \<open>The generator after a run over the schema: line 244 and line 187 have written to it.\<close>

definition exampleGeneratorAfter :: AutoGenerator where
  "exampleGeneratorAfter =
     exampleGenerator
       \<lparr> tables := [(''post'', [(''user_id'', [(''type'', JStr ''int''),
                                                (''foreignKey'', JFK exampleFK)])])],
         options := (options exampleGenerator)\<lparr>noAlias := Some True\<rparr> \<rparr>"

text \<open>A result is a text, not an error, and the text has the given line in it.\<close>

definition emits :: "string \<Rightarrow> error + string \<Rightarrow> bool" where
  "emits line r = (case r of Inl e \<Rightarrow> False | Inr out \<Rightarrow> sublist line out)"

text \<open>
  A many-to-many relation of \<open>tag\<close>, as parent, with \<open>post\<close>; it is not one of the relations
  of the small schema.
\<close>

definition exampleTagM2M :: Relation where
  "exampleTagM2M =
     \<lparr> parentId = ''tag_id'', parentModel = ''tag'', parentProp = ''tag'',
       childId = ''post_id'', childModel = ''post'', childProp = ''post'',
       isOne = False, isM2M = True, joinModel = Some ''post_tag'' \<rparr>"



text \<open>
  A table \<open>log\<close> with the one column \<open>lastModifiedAt\<close>, generated with the additional options
  \<^verbatim>\<open>{ timestamps: true, updatedAt: false }\<close>.
\<close>

definition auditOptions :: AutoOptions where
  "auditOptions =
     exampleOptions\<lparr>additional := Some [(''timestamps'', JBool True), (''updatedAt'', JBool False)]\<rparr>"

definition auditTableData :: TableData where
  "auditTableData =
     \<lparr> td_tables = [(''log'', [(''lastModifiedAt'', [(''type'', JStr ''datetime'')])])],
       td_foreignKeys = [],
       td_hasTriggerTables = [],
       td_indexes = [],
       td_relations = [] \<rparr>"

definition auditGenerator :: AutoGenerator where
  "auditGenerator = newAutoGenerator auditTableData exampleDialect auditOptions"

section \<open>The type mappers: claims C2, C4 and C9\<close>

lemma float8_type_facts:
  assumes "prefix ''float8'' ty"
  shows "ty \<noteq> ''boolean''" "ty \<noteq> ''bit(1)''" "ty \<noteq> ''bit''" "ty \<noteq> ''tinyint(1)''"
    "ty \<noteq> ''numrange''" "ty \<noteq> ''int4range''" "ty \<noteq> ''int8range''" "ty \<noteq> ''daterange''"
    "ty \<noteq> ''tsrange''" "ty \<noteq> ''tstzrange''"
    "firstAlternative [''bigint'', ''smallint'', ''mediumint'', ''tinyint'', ''int''] ty = None"
    "ty \<noteq> ''nvarchar(max)''" "ty \<noteq> ''varchar(max)''"
    "\<not> startsWithAny [''nchar'', ''char''] ty" "\<not> prefix ''real'' ty" "ty \<noteq> ''date''"
    "\<not> startsWithAny [''date'', ''timestamp''] ty" "\<not> startsWithAny [''time''] ty"
    "startsWithAny [''float'', ''float4''] ty"
proof -
  from assms obtain r where "ty = ''float8'' @ r" by (auto simp: prefix_def)
  then show "ty \<noteq> ''boolean''" "ty \<noteq> ''bit(1)''" "ty \<noteq> ''bit''" "ty \<noteq> ''tinyint(1)''"
    "ty \<noteq> ''numrange''" "ty \<noteq> ''int4range''" "ty \<noteq> ''int8range''" "ty \<noteq> ''daterange''"
    "ty \<noteq> ''tsrange''" "ty \<noteq> ''tstzrange''"
    "firstAlternative [''bigint'', ''smallint'', ''mediumint'', ''tinyint'', ''int''] ty = None"
    "ty \<noteq> ''nvarchar(max)''" "ty \<noteq> ''varchar(max)''"
    "\<not> startsWithAny [''nchar'', ''char''] ty" "\<not> prefix ''real'' ty" "ty \<noteq> ''date''"
    "\<not> startsWithAny [''date'', ''timestamp''] ty" "\<not> startsWithAny [''time''] ty"
    "startsWithAny [''float'', ''float4''] ty"
    by (simp_all add: firstAlternative_def startsWithAny_def)
qed

lemma tinyint1_type_facts:
  assumes "toLowerCase t = ''tinyint(1)''"
  shows "\<not> isArray (toLowerCase t)" "isNumber (toLowerCase t)" "t \<noteq> []"
  using assms by (auto simp: isArray_def isNumber_def startsWithAny_def suffix_to_prefix
                     toLowerCase_def)

text \<open>
  Claim C2. A column whose lower-cased type begins with \<open>float8\<close> should map to
  \<^verbatim>\<open>DataTypes.DOUBLE\<close>. The rule for \<open>float\<close> and \<open>float4\<close> (line 505) comes before the
  rule for \<open>float8\<close> and \<open>double\<close> (line 513) and matches every such type first: the type
  \<open>float8\<close> maps to \<^verbatim>\<open>DataTypes.FLOAT\<close>.
\<close>

theorem float8_maps_to_FLOAT:
  "getSqType [(''type'', JStr ''float8'')] ''type'' = Some (Inr (JStr ''DataTypes.FLOAT''))"
  by code_simp

text \<open>No type that begins with \<open>float8\<close> reaches line 513: whatever follows the prefix, the
  result is not \<^verbatim>\<open>DataTypes.DOUBLE\<close>.\<close>

lemma float8_rule_is_dead:
  assumes "jsGet fieldObj ''type'' = JStr t" and "prefix ''float8'' (toLowerCase t)"
  shows "\<exists>r. getSqType fieldObj ''type'' = Some (Inr (JStr r)) \<and> \<not> prefix ''DataTypes.DOUBLE'' r"
  by (subst getSqType.simps)
     (simp add: assms(1) Let_def float8_type_facts [OF assms(2)])

text \<open>
  Claim C4. A column of type \<open>tinyint(1)\<close>, in any letter case, should have the static type
  \<open>boolean\<close>, as the ORM mapper maps it to \<^verbatim>\<open>DataTypes.BOOLEAN\<close>. The static-type mapper
  compares the raw type with \<open>TINYINT(1)\<close> in upper case only (line 605): the lower-case
  spelling falls through to the number rule and gets \<open>number\<close>, while the ORM mapper gives the
  same column \<^verbatim>\<open>DataTypes.BOOLEAN\<close>.
\<close>

theorem tinyint1_lower_case_is_number:
  "getTypeScriptFieldType [(''type'', JStr ''tinyint(1)'')] ''type'' = Some (Inr ''number'', [])
   \<and> getSqType [(''type'', JStr ''tinyint(1)'')] ''type'' = Some (Inr (JStr ''DataTypes.BOOLEAN''))
   \<and> getTypeScriptFieldType [(''type'', JStr ''TINYINT(1)'')] ''type'' = Some (Inr ''boolean'', [])"
  by code_simp

text \<open>For every spelling of \<open>tinyint(1)\<close> the ORM type is \<^verbatim>\<open>DataTypes.BOOLEAN\<close>, and the static
  type is \<open>boolean\<close> for the upper-case spelling alone.\<close>

lemma tinyint1_static_type:
  assumes "jsGet fieldObj ''type'' = JStr t" and "toLowerCase t = ''tinyint(1)''"
  shows "getTypeScriptFieldType fieldObj ''type''
           = Some (Inr (if t = ''TINYINT(1)'' then ''boolean'' else ''number''), [])"
    and "getSqType fieldObj ''type'' = Some (Inr (JStr ''DataTypes.BOOLEAN''))"
proof -
  have raw: "toLowerCase (toStringJS (if truthy (JStr t) then JStr t else JStr [])) = ''tinyint(1)''"
    using assms(2) tinyint1_type_facts(3) [OF assms(2)] by simp
  show "getTypeScriptFieldType fieldObj ''type''
           = Some (Inr (if t = ''TINYINT(1)'' then ''boolean'' else ''number''), [])"
    apply (subst getTypeScriptFieldType.simps)
    apply (simp only: Let_def assms(1))
    apply (simp only: raw)
    apply (simp add: isArray_def isNumber_def startsWithAny_def suffix_to_prefix)
    done
  show "getSqType fieldObj ''type'' = Some (Inr (JStr ''DataTypes.BOOLEAN''))"
    by (subst getSqType.simps) (simp add: assms Let_def)
qed





section \<open>Facts about the strings\<close>





lemma trimStart_tail:
  assumes "v \<noteq> []" and "\<not> isSpace (hd v)"
  shows "\<exists>w. \<forall>r. trimStart (u @ v @ r) = w @ v @ r"
proof (cases "\<forall>c \<in> set u. isSpace c")
  case True
  then have "dropWhile isSpace (u @ v @ r) = v @ r" for r
    using assms by (cases v) (simp_all add: dropWhile_append)
  then have "\<forall>r. trimStart (u @ v @ r) = [] @ v @ r" by (simp add: trimStart_def)
  then show ?thesis by blast
next
  case False
  then have "dropWhile isSpace (u @ v @ r) = dropWhile isSpace u @ v @ r" for r
    by (auto simp: dropWhile_append)
  then show ?thesis by (simp add: trimStart_def)
qed

lemma trimStart_append_nonspace:
  "\<exists>c\<in>set a. \<not> isSpace c \<Longrightarrow> trimStart (a @ r) = trimStart a @ r"
  by (auto simp: trimStart_def dropWhile_append)

lemma trimEnd_append_nonspace:
  assumes "\<exists>c\<in>set b. \<not> isSpace c"
  shows "trimEnd (l @ b) = l @ trimEnd b" and "trimEnd b \<noteq> []"
proof -
  have "dropWhile isSpace (rev b) \<noteq> []" using assms by (auto simp: dropWhile_eq_Nil_conv)
  then show "trimEnd b \<noteq> []" by (simp add: trimEnd_def)
  have "dropWhile isSpace (rev b @ rev l) = dropWhile isSpace (rev b) @ rev l"
    using assms by (auto simp: dropWhile_append)
  then show "trimEnd (l @ b) = l @ trimEnd b" by (simp add: trimEnd_def)
qed

lemma substring_butlast: "substring s 0 (int (length s) - 1) = butlast s"
  by (cases "s = []") (auto simp: substring_def Let_def butlast_conv_take nat_diff_distrib')

lemma body_kept:
  assumes "\<exists>c\<in>set a. \<not> isSpace c" and "\<exists>c\<in>set b. \<not> isSpace c"
  shows "\<exists>pre post. substring (ind @ trim (a @ m @ b)) 0
                       (int (length (ind @ trim (a @ m @ b))) - 1) = pre @ m @ post"
proof -
  have "trim (a @ m @ b) = trimEnd ((trimStart a @ m) @ b)"
    by (simp add: trim_def trimStart_append_nonspace [OF assms(1)])
  also have "\<dots> = (trimStart a @ m) @ trimEnd b"
    by (rule trimEnd_append_nonspace(1) [OF assms(2)])
  finally have "butlast (ind @ trim (a @ m @ b)) = (ind @ trimStart a) @ m @ butlast (trimEnd b)"
    using trimEnd_append_nonspace(2) [OF assms(2)] by (simp add: butlast_append)
  then show ?thesis unfolding substring_butlast by blast
qed


lemma concat_map_removeAll:
  assumes "f x = []"
  shows "concat (map f (removeAll x xs)) = concat (map f xs)"
  using assms by (induction xs) auto

lemma sublist_of_prefix: "sublist (x @ y) out \<Longrightarrow> sublist x out"
  unfolding sublist_def by (metis append.assoc)

lemma replaceChar_absent: "c \<notin> set s \<Longrightarrow> replaceChar c rep s = s"
  by (induction s) (auto simp: replaceChar_def)

lemma lowerChar_fixes:
  "c \<in> {TAB, CR, NL, FF, BSP, CHR ''/'', DQ, BSL, CHR ''('', CHR '')''} \<Longrightarrow> lowerChar c = c"
  unfolding lowerChar_def by (elim insertE emptyE; simp)

lemma lower_absent:
  assumes "c \<in> {TAB, CR, NL, FF, BSP, CHR ''/'', DQ, BSL, CHR ''('', CHR '')''}"
    and "c \<notin> set (toLowerCase d)"
  shows "c \<notin> set d"
proof
  assume "c \<in> set d"
  then have "lowerChar c \<in> set (toLowerCase d)" by (simp add: toLowerCase_def)
  then show False using lowerChar_fixes [OF assms(1)] assms(2) by simp
qed

lemma escapeSpecial_plain:
  assumes "set (toLowerCase d) \<inter> {TAB, CR, NL, FF, BSP, CHR ''/'', DQ, BSL} = {}"
  shows "escapeSpecial d = d"
proof -
  have "c \<notin> set d" if "c \<in> {TAB, CR, NL, FF, BSP, CHR ''/'', DQ, BSL}" for c
    using lower_absent [of c d] that assms by blast
  then show ?thesis by (simp add: escapeSpecial_def replaceChar_absent)
qed

lemma keyword_set:
  assumes "toLowerCase d \<in> set [''current_timestamp'', ''current_date'', ''current_time'',
             ''localtime'', ''localtimestamp'']"
  shows "set (toLowerCase d) \<subseteq> set ''abcdefghijklmnopqrstuvwxyz_''"
proof -
  have "\<forall>k \<in> set [''current_timestamp'', ''current_date'', ''current_time'',
             ''localtime'', ''localtimestamp'']. set k \<subseteq> set ''abcdefghijklmnopqrstuvwxyz_''"
    by simp
  then show ?thesis using assms by blast
qed

lemma lowerChar_paren: "lowerChar c = CHR '')'' \<Longrightarrow> c = CHR '')''"
  and lowerChar_open: "lowerChar c = CHR ''('' \<Longrightarrow> c = CHR ''(''"
  unfolding lowerChar_def by (simp_all split: if_splits)

lemma map_eq_three:
  "map f b = [p, q, r] \<Longrightarrow> \<exists>x y z. b = [x, y, z] \<and> f x = p \<and> f y = q \<and> f z = r"
  by (cases b; cases "tl b"; cases "tl (tl b)") auto

lemma newid_is_call:
  assumes "toLowerCase d = ''(newid())''"
  shows "suffix ''())'' d"
proof -
  have "map lowerChar (drop 6 d) = drop 6 (toLowerCase d)"
    by (simp add: toLowerCase_def drop_map)
  also have "\<dots> = [CHR ''('', CHR '')'', CHR '')'']"
    by (simp add: assms)
  finally obtain x y z where "drop 6 d = [x, y, z]" "lowerChar x = CHR ''(''"
      "lowerChar y = CHR '')''" "lowerChar z = CHR '')''"
    using map_eq_three by blast
  then have "drop 6 d = ''())''" using lowerChar_paren lowerChar_open by simp
  then have "d = take 6 d @ ''())''" by (metis append_take_drop_id)
  then show ?thesis unfolding suffix_def by blast
qed

section \<open>Facts about the small schema\<close>

lemma example_sp:
  "sp exampleGenerator 2 = ''    ''" "sp exampleGenerator 3 = ''      ''"
  "sp mssqlGenerator 3 = ''      ''"
  by (simp_all add: sp_def exampleGenerator_def mssqlGenerator_def newAutoGenerator_def
        exampleOptions_def indentUnit_def upt_rec numeral_2_eq_2 numeral_3_eq_3)

lemma example_settings:
  "caseProp (options exampleGenerator) = Some ''l''"
  "canAliasPK (dialect exampleGenerator) = False"
  "name (dialect exampleGenerator) = ''postgres''"
  "name (dialect mssqlGenerator) = ''mssql''"
  "noAlias (options exampleGenerator) = None"
  "relations exampleGenerator = [exampleBelongsTo, exampleAliased, exampleSelfM2M]"
  by (simp_all add: exampleGenerator_def mssqlGenerator_def newAutoGenerator_def
        exampleOptions_def exampleDialect_def exampleTableData_def)

lemma example_recase:
  "recase exampleImports (Some ''l'') s b = toLowerCase s"
  "qNameSplit exampleImports q = (None, q)"
  "pluralize exampleImports s = s @ ''s''"
  by (simp_all add: exampleImports_def)

lemma example_sqType:
  "getSqType [(''type'', JStr ''int''), (''foreignKey'', JFK fk)] ''type''
     = Some (Inr (JStr ''DataTypes.INTEGER''))"
  by code_simp

lemma example_tsType:
  "getTypeScriptFieldType [(''type'', JStr ''int'')] ''type'' = Some (Inr ''number'', [])"
  by code_simp

lemma example_addField:
  "\<exists>ftext. addField exampleImports exampleGenerator ''post'' ''user_id''
     = (Inr ftext, exampleGenerator\<lparr>tables :=
          [(''post'', [(''user_id'', [(''type'', JStr ''int''), (''foreignKey'', JFK exampleFK)])])]\<rparr>)"
  by (simp add: addField_def exampleGenerator_def newAutoGenerator_def exampleTableData_def
        exampleOptions_def exampleDialect_def exampleImports_def exampleFK_def
        fkLookup_def setField_def Let_def
        addFieldText_def addFieldAttr_def jsKeys_def jsGet_def jsHas_def bindE_def
        isTimestampField_def isSerialKeyOf_def asFK_def example_sqType)

lemma example_addTable:
  "\<exists>out. addTable exampleImports exampleGenerator ''post'' = (Inr out, exampleGeneratorAfter)"
proof -
  obtain ftext where "addField exampleImports exampleGenerator ''post'' ''user_id''
     = (Inr ftext, exampleGenerator\<lparr>tables :=
          [(''post'', [(''user_id'', [(''type'', JStr ''int''), (''foreignKey'', JFK exampleFK)])])]\<rparr>)"
    using example_addField by blast
  moreover have "tableFields exampleGenerator ''post'' = [''user_id'']"
    and "additional (options exampleGenerator) = Some []"
    by (simp_all add: tableFields_def exampleGenerator_def newAutoGenerator_def
          exampleTableData_def exampleOptions_def jsKeys_def)
  ultimately show ?thesis
    by (simp add: addTable_def Let_def isTimestampField_def isParanoidField_def jsGet_def
          exampleGeneratorAfter_def)
qed






lemma example_audit_lower:
  "toLowerCase ''lastModifiedAt'' = ''lastmodifiedat''"
  by (simp add: toLowerCase_def lowerChar_def)

lemma example_audit_settings:
  "tableFields auditGenerator ''log'' = [''lastModifiedAt'']"
  "additional (options auditGenerator) = Some [(''timestamps'', JBool True), (''updatedAt'', JBool False)]"
  "sp auditGenerator 2 = ''    ''"
  "hasTriggerTables auditGenerator = []"
  "qNameSplit exampleImports ''log'' = (None, ''log'')"
  by (simp_all add: tableFields_def auditGenerator_def newAutoGenerator_def auditTableData_def
        auditOptions_def exampleOptions_def exampleImports_def jsKeys_def sp_def indentUnit_def
        upt_rec numeral_2_eq_2)

lemma example_audit_flags:
  "isParanoidField auditGenerator ''lastModifiedAt'' = Inr False"
  "additionalOptionsText auditGenerator ''log'' = ''    updatedAt: false,'' @ [NL]"
  by (simp_all add: isParanoidField_def additionalOptionsText_def additionalOptionText_def
        example_audit_settings example_audit_lower jsGet_def)

lemma example_audit_column:
  "\<not> isl (fst (addField exampleImports auditGenerator ''log'' ''lastModifiedAt''))"
  by code_simp

lemma example_audit_addTable:
  "\<exists>out g'. addTable exampleImports auditGenerator ''log'' = (Inr out, g')"
proof -
  obtain ftext g1 where "addField exampleImports auditGenerator ''log'' ''lastModifiedAt''
      = (Inr ftext, g1)"
    using example_audit_column
    by (cases "addField exampleImports auditGenerator ''log'' ''lastModifiedAt''";
        cases "fst (addField exampleImports auditGenerator ''log'' ''lastModifiedAt'')") auto
  moreover have "isParanoidField auditGenerator ''lastModifiedAt'' = Inr False"
    by (rule example_audit_flags)
  ultimately show ?thesis
    by (simp add: addTable_def Let_def example_audit_settings jsGet_def)
qed

lemma example_lower:
  "toLowerCase ''user'' = ''user''" "toLowerCase ''User'' = ''user''"
  "toLowerCase ''author'' = ''author''" "toLowerCase ''writer'' = ''writer''"
  by (simp_all add: toLowerCase_def lowerChar_def)

lemma example_escape:
  "escapeSpecial ''(newid())'' = ''(newid())''" "escapeSpecial ''NULL'' = ''NULL''"
  "escapeSpecial ''now()'' = ''now()''" "escapeSpecial ''current_date'' = ''current_date''"
  "escapeSpecial ''CURRENT_TIMESTAMP'' = ''CURRENT_TIMESTAMP''"
  "escapeSpecial ''2020-01-01'' = ''2020-01-01''"
  by (simp_all add: escapeSpecial_def replaceChar_def)

lemma example_lower_defaults:
  "toLowerCase ''(newid())'' = ''(newid())''" "toLowerCase ''NULL'' = ''null''"
  "toLowerCase ''now()'' = ''now()''" "toLowerCase ''current_date'' = ''current_date''"
  "toLowerCase ''CURRENT_TIMESTAMP'' = ''current_timestamp''"
  "toLowerCase ''2020-01-01'' = ''2020-01-01''"
  "toLowerCase ''timestamp'' = ''timestamp''" "toLowerCase ''daterange'' = ''daterange''"
  "toLowerCase ''uniqueidentifier'' = ''uniqueidentifier''" "toLowerCase ''int'' = ''int''"
  "toLowerCase ''datetime'' = ''datetime''"
  by (simp_all add: toLowerCase_def lowerChar_def)

lemma example_string_defaults:
  "stringDefaultText fo ''uniqueidentifier'' ''(newid())''
     = ''Sequelize.Sequelize.fn('' @ [SQ] @ ''newid'' @ [SQ] @ '')''"
  "stringDefaultText fo ''timestamp'' ''now()''
     = ''Sequelize.Sequelize.fn('' @ [SQ] @ ''now'' @ [SQ] @ '')''"
  "stringDefaultText [(''type'', JStr ''daterange''), (''defaultValue'', JStr ''current_date'')]
     ''daterange'' ''current_date'' = ''[current_date]''"
  by (simp_all add: stringDefaultText_def isArray_def isNumber_def startsWithAny_def
        suffix_to_prefix stripParens_def stripBraces_def jsGet_def isString_def)

section \<open>The input after a run: claim C1\<close>

lemma unchangedExcept_refl: "unchangedExcept g g"
  by (simp add: unchangedExcept_def)

lemma unchangedExcept_trans:
  "unchangedExcept g g' \<Longrightarrow> unchangedExcept g' g'' \<Longrightarrow> unchangedExcept g g''"
  unfolding unchangedExcept_def by auto

lemma erase_columns:
  "map_of cols field = Some fo \<Longrightarrow>
   map (\<lambda>fo. (fst fo, AList.delete k (snd fo)))
       (AList.map_entry field (\<lambda>_. AList.update k v fo) cols)
     = map (\<lambda>fo. (fst fo, AList.delete k (snd fo))) cols"
  by (induction cols) (auto simp: delete_update_same)

lemma erase_setField:
  "map_of ts table = Some cols \<Longrightarrow> map_of cols field = Some fo \<Longrightarrow>
   eraseForeignKey (setField table field (AList.update ''foreignKey'' v fo) ts) = eraseForeignKey ts"
  by (induction ts) (auto simp: eraseForeignKey_def setField_def erase_columns)

lemma addField_unchangedExcept: "unchangedExcept g (snd (addField E g table field))"
  by (auto simp: addField_def unchangedExcept_def Let_def erase_setField split: option.splits)

lemma addTableFields_unchangedExcept:
  "unchangedExcept g (snd (addTableFields E table fs acc g))"
proof (induction fs arbitrary: acc g)
  case Nil
  then show ?case by (simp add: unchangedExcept_refl)
next
  case (Cons field rest)
  obtain ts par str where acc: "acc = (ts, par, str)" by (cases acc) auto
  show ?case
  proof (cases "addField E g table field")
    case (Pair r g')
    have step: "unchangedExcept g g'"
      using addField_unchangedExcept [of g E table field] Pair by simp
    show ?thesis
      using step Cons.IH [where g = g'] Pair unchangedExcept_refl [of g]
      by (auto simp: acc split: sum.splits intro: unchangedExcept_trans)
  qed
qed

lemma addTable_unchangedExcept: "unchangedExcept g (snd (addTable E g table))"
proof -
  let ?r = "addTableFields E table (tableFields g table)
              (case additional (options g) of None \<Rightarrow> False
               | Some a \<Rightarrow> jsGet a ''timestamps'' = JBool True, False, []) g"
  have inv: "unchangedExcept g (snd ?r)" by (rule addTableFields_unchangedExcept)
  have set: "unchangedExcept g1 (g1\<lparr>options := (options g1)\<lparr>noAlias := Some True\<rparr>\<rparr>)" for g1
    by (simp add: unchangedExcept_def)
  show ?thesis
  proof (cases ?r)
    case (Pair r g1)
    then show ?thesis
      using inv set [of g1]
      by (auto simp: addTable_def Let_def split: sum.splits prod.splits
            intro: unchangedExcept_trans)
  qed
qed

lemma generateTable_unchangedExcept:
  "unchangedExcept g (snd (generateTable E header g table))"
  using addTable_unchangedExcept [of g E table] unchangedExcept_refl [of g]
  by (auto simp: generateTable_def Let_def split: sum.splits prod.splits option.splits)

lemma generateTables_unchangedExcept:
  "unchangedExcept g (snd (generateTables E header ts acc g))"
proof (induction ts arbitrary: acc g)
  case Nil
  then show ?case by (simp add: unchangedExcept_refl)
next
  case (Cons table rest)
  show ?case
  proof (cases "generateTable E header g table")
    case (Pair r g')
    have "unchangedExcept g g'"
      using generateTable_unchangedExcept [of g E header table] Pair by simp
    then show ?thesis
      using Cons.IH [where g = g'] Pair
      by (auto split: sum.splits prod.splits intro: unchangedExcept_trans)
  qed
qed

text \<open>
  Claim C1, as the code has it. The schema model and the options are not left untouched by
  \<^verbatim>\<open>generateText\<close>: \<^verbatim>\<open>addTable\<close> sets the option \<^verbatim>\<open>noAlias\<close> (line 187) and \<^verbatim>\<open>addField\<close>
  stores the foreign key of a column in its descriptor (line 244). Nothing else changes,
  whether the run returns or throws: the dialect, the foreign keys, the trigger flags, the
  indexes, the relations and the indentation strings are the same after the run; so is every
  option but \<^verbatim>\<open>noAlias\<close>, which is as before or \<^verbatim>\<open>true\<close>; and the tables have the same
  columns with the same attributes in the same order, the attribute \<^verbatim>\<open>foreignKey\<close> apart. The
  generated text is a value of its own, built from the input and never written into it.
\<close>

theorem generateText_changes_noAlias_and_foreignKey_only:
  "dialect (snd (generateText E g)) = dialect g
   \<and> foreignKeys (snd (generateText E g)) = foreignKeys g
   \<and> hasTriggerTables (snd (generateText E g)) = hasTriggerTables g
   \<and> indexes (snd (generateText E g)) = indexes g
   \<and> relations (snd (generateText E g)) = relations g
   \<and> space (snd (generateText E g)) = space g
   \<and> (options (snd (generateText E g)))\<lparr>noAlias := None\<rparr> = (options g)\<lparr>noAlias := None\<rparr>
   \<and> (noAlias (options (snd (generateText E g))) = noAlias (options g)
        \<or> noAlias (options (snd (generateText E g))) = Some True)
   \<and> eraseForeignKey (tables (snd (generateText E g))) = eraseForeignKey (tables g)"
  using generateTables_unchangedExcept [of g E "makeHeaderTemplate g" "jsKeys (tables g)" "([], [])"]
  unfolding generateText_def unchangedExcept_def by simp

text \<open>
  The claim as stated fails on the small schema: its options have no \<^verbatim>\<open>noAlias\<close> before the
  run and \<^verbatim>\<open>noAlias\<close> set after it, and the descriptor of the column \<open>user_id\<close> has gained
  the attribute \<^verbatim>\<open>foreignKey\<close>.
\<close>

theorem generateText_mutates_its_input:
  "noAlias (options exampleGenerator) = None
   \<and> noAlias (options (snd (generateText exampleImports exampleGenerator))) = Some True
   \<and> tables exampleGenerator = [(''post'', [(''user_id'', [(''type'', JStr ''int'')])])]
   \<and> tables (snd (generateText exampleImports exampleGenerator))
       = [(''post'', [(''user_id'', [(''type'', JStr ''int''), (''foreignKey'', JFK exampleFK)])])]"
proof -
  obtain out where t: "addTable exampleImports exampleGenerator ''post'' = (Inr out, exampleGeneratorAfter)"
    using example_addTable by blast
  have f: "tableFields exampleGenerator ''post'' = [''user_id'']"
    and a: "additional (options exampleGenerator) = Some []"
    and k: "jsKeys (tables exampleGenerator) = [''post'']"
    and m: "map_of (tables exampleGenerator) ''post'' = Some [(''user_id'', [(''type'', JStr ''int'')])]"
    and n: "recase exampleImports (caseModel (options exampleGenerator)) ''post''
              (singularize (options exampleGenerator)) = ''post''"
    and q: "qNameSplit exampleImports ''post'' = (None, ''post'')"
    by (simp_all add: tableFields_def exampleGenerator_def newAutoGenerator_def
          exampleTableData_def exampleOptions_def exampleImports_def jsKeys_def)
  have "snd (generateText exampleImports exampleGenerator) = exampleGeneratorAfter"
    by (simp add: generateText_def generateTable_def Let_def f a k m n q t
          isTimestampField_def jsGet_def bindE_def addTypeScriptFields_def
          typeScriptFieldLine_def getTypeScriptFieldOptional_def example_tsType)
  then show ?thesis
    by (simp add: exampleGeneratorAfter_def exampleGenerator_def newAutoGenerator_def
          exampleTableData_def exampleOptions_def)
qed

section \<open>Associations: claims C3 and C5\<close>

text \<open>The text that \<^verbatim>\<open>addTable\<close> returns has the association block in it, as the loop over the
  relations built it, and the loop ran with \<^verbatim>\<open>noAlias\<close> set.\<close>

lemma addTable_result:
  assumes "addTable E g table = (Inr out, g')"
  shows "\<exists>pre post. out = pre
            @ concat (map (relationText E g' (snd (qNameSplit E table))) (relations g')) @ post"
    and "noAlias (options g') = Some True"
proof -
  let ?r = "addTableFields E table (tableFields g table)
              (case additional (options g) of None \<Rightarrow> False
               | Some a \<Rightarrow> jsGet a ''timestamps'' = JBool True, False, []) g"
  obtain res g1 where r: "?r = (res, g1)" by (cases ?r) auto
  from assms r obtain ts par str0 where res: "res = Inr (ts, par, str0)"
    by (cases res) (auto simp: addTable_def Let_def)
  define g2 where "g2 = g1\<lparr>options := (options g1)\<lparr>noAlias := Some True\<rparr>\<rparr>"
  define str2 where "str2 = (substring str0 0 (int (length str0) - 2) @ [NL])
              @ tableOptionsText g1 table (fst (qNameSplit E table)) (snd (qNameSplit E table))
                  ts par (tableFields g table)
              @ additionalOptionsText g1 table"
  define a where "a = str2 @ sp g2 2 @ ''// eslint-disable-next-line'' @ [NL]
                @ sp g2 2 @ ''associate: models => {'' @ [NL]"
  define b where "b = sp g2 2 @ ''},'' @ [NL] @ addIndexes g2 table"
  define m where "m = concat (map (relationText E g2 (snd (qNameSplit E table))) (relations g2))"
  define rest where "rest = [NL] @ sp g2 1 @ ''}'' @ '');'' @ [NL]
     @ (if lang (options g2) \<in> {Some ''es6'', Some ''esm'', Some ''ts''}
        then sp g2 1 @ ''return ''
             @ recase E (caseModel (options g)) (snd (qNameSplit E table)) (singularize (options g))
             @ '';'' @ [NL] @ sp g2 1 @ ''}'' @ [NL] @ ''}'' @ [NL]
        else [])"
  have "addTable E g table
          = (Inr (substring (sp g2 2 @ trim (a @ m @ b)) 0
                    (int (length (sp g2 2 @ trim (a @ m @ b))) - 1) @ rest), g2)"
    by (simp only: addTable_def Let_def r res prod.case sum.case
          g2_def str2_def a_def b_def m_def rest_def append_assoc)
  with assms have g': "g' = g2" and out: "out = substring (sp g2 2 @ trim (a @ m @ b)) 0
                     (int (length (sp g2 2 @ trim (a @ m @ b))) - 1) @ rest"
    by auto
  have na: "\<exists>c\<in>set a. \<not> isSpace c" by (auto simp: a_def isSpace_def)
  have nb: "\<exists>c\<in>set b. \<not> isSpace c" by (auto simp: b_def isSpace_def)
  obtain pre post where "substring (sp g2 2 @ trim (a @ m @ b)) 0
                     (int (length (sp g2 2 @ trim (a @ m @ b))) - 1) = pre @ m @ post"
    using body_kept [OF na nb] by blast
  then have "out = pre @ m @ (post @ rest)" using out by simp
  then show "\<exists>pre post. out = pre
            @ concat (map (relationText E g' (snd (qNameSplit E table))) (relations g')) @ post"
    unfolding g' m_def by blast
  show "noAlias (options g') = Some True" by (simp add: g' g2_def)
qed

lemma relation_in_block:
  assumes "rel \<in> set rs"
  shows "\<exists>pre post. concat (map f rs) = pre @ f rel @ post"
proof -
  from assms obtain xs ys where "rs = xs @ rel # ys" by (auto dest: split_list)
  then have "concat (map f rs) = concat (map f xs) @ f rel @ concat (map f ys)" by simp
  then show ?thesis by blast
qed

lemma addTable_relation:
  assumes "addTable E g table = (Inr out, g')" and "rel \<in> set (relations g)"
  shows "sublist (relationText E g' (snd (qNameSplit E table)) rel) out"
    and "noAlias (options g') = Some True" and "sp g' 3 = sp g 3"
proof -
  have u: "unchangedExcept g g'"
    using addTable_unchangedExcept [of g E table] assms(1) by simp
  then have rels: "relations g' = relations g" and "space g' = space g"
    by (simp_all add: unchangedExcept_def)
  then show "sp g' 3 = sp g 3" by (simp add: sp_def)
  show "noAlias (options g') = Some True" by (rule addTable_result(2) [OF assms(1)])
  obtain pre post where o: "out = pre
      @ concat (map (relationText E g' (snd (qNameSplit E table))) (relations g')) @ post"
    using addTable_result(1) [OF assms(1)] by blast
  obtain p q where "concat (map (relationText E g' (snd (qNameSplit E table))) (relations g'))
      = p @ relationText E g' (snd (qNameSplit E table)) rel @ q"
    using relation_in_block [of rel "relations g'"] assms(2) rels by metis
  then have "out = (pre @ p) @ relationText E g' (snd (qNameSplit E table)) rel @ (q @ post)"
    using o by simp
  then show "sublist (relationText E g' (snd (qNameSplit E table)) rel) out"
    unfolding sublist_def by blast
qed

lemma relationText_belongsTo:
  assumes "\<not> isM2M rel" and "childModel rel = tn" and "noAlias (options g) = Some True"
  shows "\<exists>rest. relationText E g tn rel =
           (sp g 3 @ ''// (autogenerated) models.'' @ childModel rel
            @ ''.belongsTo(models.'' @ parentModel rel @ '', { ''
            @ (if toLowerCase (parentModel rel) = toLowerCase (parentProp rel) then []
               else ''as: '' @ [DQ] @ parentProp rel @ [DQ] @ '', '')
            @ ''foreignKey: '' @ [DQ] @ parentId rel @ [DQ] @ ''});'' @ [NL]) @ rest"
  using assms by (simp add: relationText_def Let_def)

text \<open>
  Claim C3, as the code has it. For a relation that is not many-to-many and whose child model
  is the table being assembled, the text of \<^verbatim>\<open>addTable\<close> has the belongs-to comment in it. The
  comment leaves the alias out exactly when the lower-cased parent model equals the
  lower-cased parent property, and carries \<open>as: "parentProp"\<close> otherwise, whatever the option
  \<^verbatim>\<open>noAlias\<close> was when \<^verbatim>\<open>addTable\<close> was called: line 187 sets it before the relations are read.
\<close>

theorem belongsTo_alias_ignores_option:
  assumes "addTable E g table = (Inr out, g')"
    and "rel \<in> set (relations g)"
    and "\<not> isM2M rel"
    and "childModel rel = snd (qNameSplit E table)"
  shows "sublist
           (sp g 3 @ ''// (autogenerated) models.'' @ childModel rel
            @ ''.belongsTo(models.'' @ parentModel rel @ '', { ''
            @ (if toLowerCase (parentModel rel) = toLowerCase (parentProp rel) then []
               else ''as: '' @ [DQ] @ parentProp rel @ [DQ] @ '', '')
            @ ''foreignKey: '' @ [DQ] @ parentId rel @ [DQ] @ ''});'' @ [NL])
           out"
proof -
  note r = addTable_relation [OF assms(1,2)]
  obtain rest where "relationText E g' (snd (qNameSplit E table)) rel =
           (sp g 3 @ ''// (autogenerated) models.'' @ childModel rel
            @ ''.belongsTo(models.'' @ parentModel rel @ '', { ''
            @ (if toLowerCase (parentModel rel) = toLowerCase (parentProp rel) then []
               else ''as: '' @ [DQ] @ parentProp rel @ [DQ] @ '', '')
            @ ''foreignKey: '' @ [DQ] @ parentId rel @ [DQ] @ ''});'' @ [NL]) @ rest"
    using relationText_belongsTo [OF assms(3,4) r(2), of E] unfolding r(3) by blast
  then show ?thesis using r(1) sublist_of_prefix by metis
qed

theorem belongsTo_alias_ignores_option_witness:
  "emits (''      // (autogenerated) models.post.belongsTo(models.author, { as: '' @ [DQ]
             @ ''writer'' @ [DQ] @ '', foreignKey: '' @ [DQ] @ ''author_id'' @ [DQ] @ ''});'' @ [NL])
        (fst (addTable exampleImports exampleGenerator ''post''))"
proof -
  obtain out where t: "addTable exampleImports exampleGenerator ''post'' = (Inr out, exampleGeneratorAfter)"
    using example_addTable by blast
  show ?thesis
    using belongsTo_alias_ignores_option [OF t, of exampleAliased]
    by (simp add: emits_def t example_settings example_recase example_sp example_lower
          exampleAliased_def)
qed

text \<open>
  The claim as stated fails on the small schema: \<^verbatim>\<open>noAlias\<close> is not set, and the belongs-to
  comment for the parent \<open>user\<close> with the parent property \<open>User\<close> has no alias.
\<close>

theorem belongsTo_alias_dropped_without_noAlias:
  "noAlias (options exampleGenerator) = None
   \<and> emits (''      // (autogenerated) models.post.belongsTo(models.user, { foreignKey: ''
             @ [DQ] @ ''user_id'' @ [DQ] @ ''});'' @ [NL])
        (fst (addTable exampleImports exampleGenerator ''post''))"
proof -
  obtain out where t: "addTable exampleImports exampleGenerator ''post'' = (Inr out, exampleGeneratorAfter)"
    using example_addTable by blast
  have "exampleBelongsTo \<in> set (relations exampleGenerator)"
    by (simp add: example_settings)
  note r = addTable_relation [OF t this]
  obtain rest where "relationText exampleImports exampleGeneratorAfter ''post'' exampleBelongsTo
      = (''      // (autogenerated) models.post.belongsTo(models.user, { foreignKey: ''
             @ [DQ] @ ''user_id'' @ [DQ] @ ''});'' @ [NL]) @ rest"
    using relationText_belongsTo [of exampleBelongsTo "''post''" exampleGeneratorAfter exampleImports]
      r(2,3)
    by (auto simp: exampleBelongsTo_def example_lower example_sp)
  then have "sublist (''      // (autogenerated) models.post.belongsTo(models.user, { foreignKey: ''
             @ [DQ] @ ''user_id'' @ [DQ] @ ''});'' @ [NL]) out"
    using r(1) sublist_of_prefix by (metis example_recase(2) snd_conv)
  then show ?thesis by (simp add: emits_def t example_settings)
qed

lemma relationText_m2m:
  assumes "isM2M rel"
  shows "relationText E g (parentModel rel) rel =
           sp g 3 @ ''// (autogenerated) models.'' @ parentModel rel
           @ ''.belongsToMany(models.'' @ childModel rel
           @ '', { as: '' @ [SQ] @ pluralize E (childProp rel) @ [SQ]
           @ '', through: models.'' @ optString (joinModel rel)
           @ '', foreignKey: '' @ [DQ] @ parentId rel @ [DQ]
           @ '', otherKey: '' @ [DQ] @ childId rel @ [DQ] @ '' });'' @ [NL]"
    and "tn \<noteq> parentModel rel \<Longrightarrow> relationText E g tn rel = []"
  using assms by (simp_all add: relationText_def Let_def)

text \<open>
  The relations are read by the loop of lines 189-209 and nowhere else: the columns, the
  options block and the indexes of a table are the same for every list of relations.
\<close>

lemma sp_relations: "sp (g\<lparr>relations := r\<rparr>) = sp g"
  by (intro ext) (simp add: sp_def)

lemma autoIncrementText_relations:
  "autoIncrementText (g\<lparr>relations := r\<rparr>) = autoIncrementText g"
  by (intro ext) (simp add: autoIncrementText_def sp_relations)

lemma defaultValueText_relations:
  "defaultValueText (g\<lparr>relations := r\<rparr>) = defaultValueText g"
  by (intro ext) (simp add: defaultValueText_def)

lemma addFieldAttr_relations:
  "addFieldAttr (g\<lparr>relations := r\<rparr>) = addFieldAttr g"
  unfolding addFieldAttr_def sp_relations autoIncrementText_relations defaultValueText_relations
  by (rule refl)

lemma addFieldText_relations:
  "addFieldText E (g\<lparr>relations := r\<rparr>) = addFieldText E g"
proof -
  have "isSerialKeyOf (g\<lparr>relations := r\<rparr>) = isSerialKeyOf g"
    and "isTimestampField (g\<lparr>relations := r\<rparr>) = isTimestampField g"
    and "uniqueText (g\<lparr>relations := r\<rparr>) = uniqueText g"
    and "fieldOverrideText (g\<lparr>relations := r\<rparr>) = fieldOverrideText g"
    by (intro ext, simp add: isSerialKeyOf_def isTimestampField_def uniqueText_def
          fieldOverrideText_def sp_relations)+
  then show ?thesis
    unfolding addFieldText_def addFieldAttr_relations sp_relations by simp
qed

lemma relations_tables_commute:
  "g\<lparr>relations := r, tables := T\<rparr> = g\<lparr>tables := T, relations := r\<rparr>"
  by (rule AutoGenerator.equality) simp_all

lemma relations_options_commute:
  "g\<lparr>relations := r, options := opts\<rparr> = g\<lparr>options := opts, relations := r\<rparr>"
  by (rule AutoGenerator.equality) simp_all

lemma addField_relations:
  "addField E (g\<lparr>relations := r\<rparr>) table field
     = (fst (addField E g table field), (snd (addField E g table field))\<lparr>relations := r\<rparr>)"
  by (simp add: addField_def fkLookup_def Let_def addFieldText_relations
        relations_tables_commute split: option.splits)

lemma addTableFields_relations:
  "addTableFields E table fs acc (g\<lparr>relations := r\<rparr>)
     = (fst (addTableFields E table fs acc g), (snd (addTableFields E table fs acc g))\<lparr>relations := r\<rparr>)"
proof (induction fs arbitrary: acc g)
  case Nil
  then show ?case by simp
next
  case (Cons field rest)
  obtain ts par str where acc: "acc = (ts, par, str)" by (cases acc) auto
  have t: "isTimestampField (g\<lparr>relations := r\<rparr>) = isTimestampField g"
    and p: "isParanoidField (g\<lparr>relations := r\<rparr>) = isParanoidField g"
    by (intro ext, simp add: isTimestampField_def isParanoidField_def)+
  obtain res g1 where a: "addField E g table field = (res, g1)"
    by (cases "addField E g table field") auto
  show ?case
    unfolding acc addTableFields.simps t p addField_relations a
    using Cons.IH [where g = g1]
    by (simp split: sum.splits)
qed

lemma addTable_parts_relations:
  "tableFields (g\<lparr>relations := r\<rparr>) = tableFields g"
  "tableOptionsText (g\<lparr>relations := r\<rparr>) = tableOptionsText g"
  "additionalOptionsText (g\<lparr>relations := r\<rparr>) = additionalOptionsText g"
  "relationText E (g\<lparr>relations := r\<rparr>) = relationText E g"
  "addIndexes (g\<lparr>relations := r\<rparr>) = addIndexes g"
proof -
  show "tableFields (g\<lparr>relations := r\<rparr>) = tableFields g"
    by (intro ext) (simp add: tableFields_def)
  have t: "timestampColumnsText (g\<lparr>relations := r\<rparr>) = timestampColumnsText g"
    unfolding timestampColumnsText_def sp_relations by (rule refl)
  show "tableOptionsText (g\<lparr>relations := r\<rparr>) = tableOptionsText g"
    by (intro ext) (simp add: tableOptionsText_def sp_relations t)
  have a: "additionalOptionText (g\<lparr>relations := r\<rparr>) = additionalOptionText g"
    unfolding additionalOptionText_def sp_relations by (rule refl)
  show "additionalOptionsText (g\<lparr>relations := r\<rparr>) = additionalOptionsText g"
    unfolding additionalOptionsText_def a by simp
  show "relationText E (g\<lparr>relations := r\<rparr>) = relationText E g"
    by (intro ext) (simp add: relationText_def sp_relations)
  have f: "indexFieldText (g\<lparr>relations := r\<rparr>) = indexFieldText g"
    unfolding indexFieldText_def sp_relations by (rule refl)
  have i: "indexText (g\<lparr>relations := r\<rparr>) = indexText g"
    unfolding indexText_def sp_relations f by (rule refl)
  show "addIndexes (g\<lparr>relations := r\<rparr>) = addIndexes g"
    unfolding addIndexes_def sp_relations i by simp
qed

text \<open>The text of a table depends on the relations through the association block alone.\<close>

lemma addTable_relations_cong:
  assumes "\<And>h. concat (map (relationText E h (snd (qNameSplit E table))) r)
              = concat (map (relationText E h (snd (qNameSplit E table))) r')"
  shows "fst (addTable E (g\<lparr>relations := r\<rparr>) table) = fst (addTable E (g\<lparr>relations := r'\<rparr>) table)"
proof -
  define ts0 where "ts0 = (case additional (options g) of None \<Rightarrow> False
               | Some a \<Rightarrow> jsGet a ''timestamps'' = JBool True)"
  obtain res g1 where x: "addTableFields E table (tableFields g table) (ts0, False, []) g = (res, g1)"
    by (cases "addTableFields E table (tableFields g table) (ts0, False, []) g") auto
  show ?thesis
  proof (cases res)
    case (Inl e)
    then show ?thesis
      by (simp add: addTable_def Let_def addTable_parts_relations addTableFields_relations
            ts0_def [symmetric] x)
  next
    case (Inr v)
    obtain ts par str0 where v: "v = (ts, par, str0)" by (cases v) auto
    show ?thesis
      by (simp add: addTable_def Let_def addTable_parts_relations addTableFields_relations
            ts0_def [symmetric] x Inr v relations_options_commute sp_relations assms)
  qed
qed

text \<open>
  Claim C5, as the code has it. For a many-to-many relation, the loop body writes, for the
  table named as the parent model, one belongs-to-many comment: it names the child model, the
  pluralized child property as alias, the join model and both join columns; and the text of
  \<^verbatim>\<open>addTable\<close> for that table has the comment in it. For every table with another name the
  loop body writes nothing for the relation, and the text of \<^verbatim>\<open>addTable\<close> for such a table is
  the text it has when the relation is taken out of the schema; that covers the table of the
  child model when the child model is not the parent model itself.
\<close>

theorem belongsToMany_on_parent_only:
  assumes "isM2M rel"
  shows "relationText E g (parentModel rel) rel =
           sp g 3 @ ''// (autogenerated) models.'' @ parentModel rel
           @ ''.belongsToMany(models.'' @ childModel rel
           @ '', { as: '' @ [SQ] @ pluralize E (childProp rel) @ [SQ]
           @ '', through: models.'' @ optString (joinModel rel)
           @ '', foreignKey: '' @ [DQ] @ parentId rel @ [DQ]
           @ '', otherKey: '' @ [DQ] @ childId rel @ [DQ] @ '' });'' @ [NL]
       \<and> (tn \<noteq> parentModel rel \<longrightarrow> relationText E g tn rel = [])
       \<and> (addTable E g table = (Inr out, g') \<and> rel \<in> set (relations g)
            \<and> parentModel rel = snd (qNameSplit E table)
          \<longrightarrow> sublist (relationText E g (parentModel rel) rel) out)
       \<and> (parentModel rel \<noteq> snd (qNameSplit E table)
          \<longrightarrow> fst (addTable E g table)
                = fst (addTable E (g\<lparr>relations := removeAll rel (relations g)\<rparr>) table))"
proof -
  have "sublist (relationText E g (parentModel rel) rel) out"
    if h: "addTable E g table = (Inr out, g')" "rel \<in> set (relations g)"
      "parentModel rel = snd (qNameSplit E table)"
  proof -
    note r = addTable_relation [OF h(1,2)]
    have "relationText E g' (parentModel rel) rel = relationText E g (parentModel rel) rel"
      by (simp add: relationText_m2m(1) [OF assms] r(3))
    then show ?thesis using r(1) h(3) by simp
  qed
  moreover have "fst (addTable E g table)
                = fst (addTable E (g\<lparr>relations := removeAll rel (relations g)\<rparr>) table)"
    if "parentModel rel \<noteq> snd (qNameSplit E table)"
  proof -
    have "relationText E h (snd (qNameSplit E table)) rel = []" for h
      using relationText_m2m(2) [OF assms] that by metis
    then have "concat (map (relationText E h (snd (qNameSplit E table))) (relations g))
          = concat (map (relationText E h (snd (qNameSplit E table))) (removeAll rel (relations g)))" for h
      by (simp add: concat_map_removeAll)
    from addTable_relations_cong [of E table "relations g" "removeAll rel (relations g)" g, OF this]
    show ?thesis by simp
  qed
  ultimately show ?thesis using relationText_m2m [OF assms] by blast
qed

theorem belongsToMany_on_parent_only_witness:
  "relationText exampleImports exampleGenerator ''tag'' exampleSelfM2M = []
   \<and> emits (''      // (autogenerated) models.post.belongsToMany(models.post, { as: '' @ [SQ]
             @ ''tos'' @ [SQ] @ '', through: models.post_link, foreignKey: '' @ [DQ] @ ''from_id''
             @ [DQ] @ '', otherKey: '' @ [DQ] @ ''to_id'' @ [DQ] @ '' });'' @ [NL])
        (fst (addTable exampleImports exampleGenerator ''post''))
   \<and> fst (addTable exampleImports
             (exampleGenerator\<lparr>relations := exampleTagM2M # relations exampleGenerator\<rparr>) ''post'')
       = fst (addTable exampleImports exampleGenerator ''post'')"
proof -
  obtain out where t: "addTable exampleImports exampleGenerator ''post'' = (Inr out, exampleGeneratorAfter)"
    using example_addTable by blast
  have m: "isM2M exampleSelfM2M" "parentModel exampleSelfM2M = ''post''"
    by (simp_all add: exampleSelfM2M_def)
  have i: "exampleSelfM2M \<in> set (relations exampleGenerator)"
    by (simp add: example_settings)
  note w = belongsToMany_on_parent_only [OF m(1), of exampleImports exampleGenerator "''tag''"
            "''post''" out exampleGeneratorAfter]
  from w have a: "relationText exampleImports exampleGenerator ''tag'' exampleSelfM2M = []"
    by (simp add: m)
  have "sublist (relationText exampleImports exampleGenerator (parentModel exampleSelfM2M)
                   exampleSelfM2M) out"
    by (rule w [THEN conjunct2, THEN conjunct2, THEN conjunct1, rule_format])
       (simp add: t i m example_recase)
  then have "sublist (relationText exampleImports exampleGenerator ''post'' exampleSelfM2M) out"
    by (simp add: m)
  moreover from w have "relationText exampleImports exampleGenerator ''post'' exampleSelfM2M
      = ''      // (autogenerated) models.post.belongsToMany(models.post, { as: '' @ [SQ]
             @ ''tos'' @ [SQ] @ '', through: models.post_link, foreignKey: '' @ [DQ] @ ''from_id''
             @ [DQ] @ '', otherKey: '' @ [DQ] @ ''to_id'' @ [DQ] @ '' });'' @ [NL]"
    by (simp add: exampleSelfM2M_def example_recase example_sp optString_def)
  moreover have "fst (addTable exampleImports
             (exampleGenerator\<lparr>relations := exampleTagM2M # relations exampleGenerator\<rparr>) ''post'')
       = fst (addTable exampleImports exampleGenerator ''post'')"
  proof -
    have n: "isM2M exampleTagM2M" "parentModel exampleTagM2M = ''tag''"
      by (simp_all add: exampleTagM2M_def)
    have "removeAll exampleTagM2M (relations exampleGenerator) = relations exampleGenerator"
      by (simp add: example_settings exampleTagM2M_def exampleBelongsTo_def exampleAliased_def
            exampleSelfM2M_def)
    then show ?thesis
      using belongsToMany_on_parent_only [OF n(1), of exampleImports
              "exampleGenerator\<lparr>relations := exampleTagM2M # relations exampleGenerator\<rparr>"
              "''tag''" "''post''" out exampleGeneratorAfter]
      by (simp add: n example_recase)
  qed
  ultimately show ?thesis using a by (simp add: emits_def t)
qed

text \<open>
  The claim as stated fails for a relation of a model with itself: in the small schema \<open>post\<close>
  is the child model of such a relation, and the text for the table \<open>post\<close> has the
  belongs-to-many comment of the relation in it.
\<close>

theorem belongsToMany_emitted_for_child_of_self_relation:
  "isM2M exampleSelfM2M \<and> childModel exampleSelfM2M = ''post''
   \<and> emits (''      // (autogenerated) models.post.belongsToMany(models.post, { as: '' @ [SQ]
             @ ''tos'' @ [SQ] @ '', through: models.post_link, foreignKey: '' @ [DQ] @ ''from_id''
             @ [DQ] @ '', otherKey: '' @ [DQ] @ ''to_id'' @ [DQ] @ '' });'' @ [NL])
        (fst (addTable exampleImports exampleGenerator ''post''))"
proof -
  obtain out where t: "addTable exampleImports exampleGenerator ''post'' = (Inr out, exampleGeneratorAfter)"
    using example_addTable by blast
  have "exampleSelfM2M \<in> set (relations exampleGenerator)"
    by (simp add: example_settings)
  note r = addTable_relation [OF t this]
  have "relationText exampleImports exampleGeneratorAfter ''post'' exampleSelfM2M
      = ''      // (autogenerated) models.post.belongsToMany(models.post, { as: '' @ [SQ]
             @ ''tos'' @ [SQ] @ '', through: models.post_link, foreignKey: '' @ [DQ] @ ''from_id''
             @ [DQ] @ '', otherKey: '' @ [DQ] @ ''to_id'' @ [DQ] @ '' });'' @ [NL]"
    using relationText_m2m(1) [of exampleSelfM2M exampleImports exampleGeneratorAfter] r(3)
    by (simp add: exampleSelfM2M_def example_recase example_sp optString_def)
  then show ?thesis
    using r(1) by (simp add: emits_def t example_recase exampleSelfM2M_def)
qed

section \<open>The source-column override: claim C6\<close>












section \<open>Default values: claims C7 and C8\<close>

lemma date_type_facts:
  assumes "prefix ''date'' ft \<or> prefix ''timestamp'' ft"
  shows "ft \<noteq> ''bit(1)'' \<and> ft \<noteq> ''bit'' \<and> ft \<noteq> ''boolean'' \<and> \<not> prefix ''array'' ft
         \<and> \<not> isNumber ft \<and> \<not> prefix ''json'' ft \<and> ft \<noteq> ''uuid''"
proof -
  from assms consider r where "ft = ''date'' @ r" | r where "ft = ''timestamp'' @ r"
    by (auto simp: prefix_def)
  then show ?thesis
    by cases (simp_all add: isNumber_def startsWithAny_def)
qed

lemma stringDefaultText_date:
  assumes "prefix ''date'' ft \<or> prefix ''timestamp'' ft" and "\<not> suffix ''range'' ft"
    and "\<not> suffix ''()'' e" and "\<not> suffix ''())'' e"
  shows "stringDefaultText fieldObj ft e =
           (if toLowerCase e \<in> set [''current_timestamp'', ''current_date'', ''current_time'',
                 ''localtime'', ''localtimestamp'']
            then ''Sequelize.Sequelize.literal('' @ [SQ] @ e @ [SQ] @ '')''
            else [DQ] @ e @ [DQ])"
  using date_type_facts [OF assms(1)] assms
  unfolding stringDefaultText_def isArray_def by simp

lemma defaultValueText_string:
  assumes "jsGet fieldObj ''type'' = JStr t"
    and "jsGet fieldObj ''defaultValue'' = JStr d"
    and "\<not> isSerial"
    and "name (dialect g) = ''mssql'' \<longrightarrow> toLowerCase d \<noteq> ''(newid())'' \<and> d \<noteq> ''(NULL)'' \<and> d \<noteq> ''NULL''"
  shows "defaultValueText g fieldObj isSerial
           = Inr (Some (stringDefaultText fieldObj (toLowerCase t) (escapeSpecial d)))"
  using assms by (auto simp: defaultValueText_def bindE_def Let_def)






text \<open>
  Claim C8, as the code has it. Take a column that is not a serial key, whose lower-cased type
  begins with \<open>date\<close> or \<open>timestamp\<close> and does not end with \<open>range\<close>, and whose default is a
  string. When the default lower-cases to one of the five keywords, the written default is the
  raw-literal wrapper around the default as it stands. When the escaped default is no keyword,
  does not end with \<open>()\<close> or \<open>())\<close> and is not \<open>(NULL)\<close> or \<open>NULL\<close> under \<open>mssql\<close>, the written
  default is the escaped default between double quotes.
\<close>

theorem date_default_text:
  assumes "jsGet fieldObj ''type'' = JStr t"
    and "jsGet fieldObj ''defaultValue'' = JStr d"
    and "prefix ''date'' (toLowerCase t) \<or> prefix ''timestamp'' (toLowerCase t)"
    and "\<not> suffix ''range'' (toLowerCase t)"
    and "\<not> isSerial"
  shows "(toLowerCase d \<in> set [''current_timestamp'', ''current_date'', ''current_time'',
             ''localtime'', ''localtimestamp'']
          \<longrightarrow> defaultValueText g fieldObj isSerial
                = Inr (Some (''Sequelize.Sequelize.literal('' @ [SQ] @ d @ [SQ] @ '')'')))
       \<and> (toLowerCase (escapeSpecial d) \<notin> set [''current_timestamp'', ''current_date'',
             ''current_time'', ''localtime'', ''localtimestamp'']
           \<and> \<not> suffix ''()'' (escapeSpecial d) \<and> \<not> suffix ''())'' (escapeSpecial d)
           \<and> \<not> (name (dialect g) = ''mssql'' \<and> (d = ''(NULL)'' \<or> d = ''NULL''))
          \<longrightarrow> defaultValueText g fieldObj isSerial = Inr (Some ([DQ] @ escapeSpecial d @ [DQ])))"
proof (intro conjI impI)
  assume kw: "toLowerCase d \<in> set [''current_timestamp'', ''current_date'', ''current_time'',
             ''localtime'', ''localtimestamp'']"
  note ks = keyword_set [OF kw]
  have e: "escapeSpecial d = d"
    by (rule escapeSpecial_plain) (use ks in auto)
  have "CHR '')'' \<notin> set (toLowerCase d)" using ks by auto
  then have np: "CHR '')'' \<notin> set d" using lower_absent [of "CHR '')''" d] by simp
  then have nocall: "\<not> suffix ''()'' d \<and> \<not> suffix ''())'' d" by (auto simp: suffix_def)
  have "toLowerCase ''NULL'' = ''null''"
    by (simp add: toLowerCase_def lowerChar_def)
  then have "d \<noteq> ''NULL''" using kw by auto
  then have ns: "toLowerCase d \<noteq> ''(newid())'' \<and> d \<noteq> ''(NULL)'' \<and> d \<noteq> ''NULL''"
    using np newid_is_call nocall by auto
  have "stringDefaultText fieldObj (toLowerCase t) d
          = ''Sequelize.Sequelize.literal('' @ [SQ] @ d @ [SQ] @ '')''"
    using stringDefaultText_date [OF assms(3,4), of d fieldObj] nocall kw by simp
  then show "defaultValueText g fieldObj isSerial
                = Inr (Some (''Sequelize.Sequelize.literal('' @ [SQ] @ d @ [SQ] @ '')''))"
    using defaultValueText_string [OF assms(1,2,5), of g] ns e by simp
next
  assume h: "toLowerCase (escapeSpecial d) \<notin> set [''current_timestamp'', ''current_date'',
             ''current_time'', ''localtime'', ''localtimestamp'']
           \<and> \<not> suffix ''()'' (escapeSpecial d) \<and> \<not> suffix ''())'' (escapeSpecial d)
           \<and> \<not> (name (dialect g) = ''mssql'' \<and> (d = ''(NULL)'' \<or> d = ''NULL''))"
  have nn: "toLowerCase d \<noteq> ''(newid())''"
  proof
    assume a: "toLowerCase d = ''(newid())''"
    then have "escapeSpecial d = d" by (intro escapeSpecial_plain) simp
    then show False using newid_is_call [OF a] h by simp
  qed
  have "stringDefaultText fieldObj (toLowerCase t) (escapeSpecial d) = [DQ] @ escapeSpecial d @ [DQ]"
    using stringDefaultText_date [OF assms(3,4), of "escapeSpecial d" fieldObj] h by simp
  then show "defaultValueText g fieldObj isSerial = Inr (Some ([DQ] @ escapeSpecial d @ [DQ]))"
    using defaultValueText_string [OF assms(1,2,5), of g] h nn by auto
qed

theorem date_default_text_witness:
  "defaultValueText exampleGenerator
     [(''type'', JStr ''timestamp''), (''defaultValue'', JStr ''CURRENT_TIMESTAMP'')] False
       = Inr (Some (''Sequelize.Sequelize.literal('' @ [SQ] @ ''CURRENT_TIMESTAMP'' @ [SQ] @ '')''))
   \<and> defaultValueText exampleGenerator
     [(''type'', JStr ''timestamp''), (''defaultValue'', JStr ''2020-01-01'')] False
       = Inr (Some ([DQ] @ ''2020-01-01'' @ [DQ]))"
  using date_default_text [of
          "[(''type'', JStr ''timestamp''), (''defaultValue'', JStr ''CURRENT_TIMESTAMP'')]"
          "''timestamp''" "''CURRENT_TIMESTAMP''" False exampleGenerator]
        date_default_text [of
          "[(''type'', JStr ''timestamp''), (''defaultValue'', JStr ''2020-01-01'')]"
          "''timestamp''" "''2020-01-01''" False exampleGenerator]
  by (simp add: jsGet_def example_settings example_lower_defaults example_escape
        suffix_to_prefix)

text \<open>
  The claim as stated fails where an earlier branch takes the default: \<open>now()\<close> on a
  \<open>timestamp\<close> column becomes a function call, not a quoted string; the keyword
  \<open>current_date\<close> on a \<open>daterange\<close> column becomes a list; on a serial key the keyword is
  dropped; and under \<open>mssql\<close> the default \<open>NULL\<close> on a \<open>datetime\<close> column is dropped.
\<close>

theorem date_default_other_branches:
  "defaultValueText exampleGenerator
     [(''type'', JStr ''timestamp''), (''defaultValue'', JStr ''now()'')] False
       = Inr (Some (''Sequelize.Sequelize.fn('' @ [SQ] @ ''now'' @ [SQ] @ '')''))
   \<and> defaultValueText exampleGenerator
     [(''type'', JStr ''daterange''), (''defaultValue'', JStr ''current_date'')] False
       = Inr (Some ''[current_date]'')
   \<and> defaultValueText exampleGenerator
     [(''type'', JStr ''timestamp''), (''defaultValue'', JStr ''CURRENT_TIMESTAMP'')] True
       = Inr None
   \<and> defaultValueText mssqlGenerator
     [(''type'', JStr ''datetime''), (''defaultValue'', JStr ''NULL'')] False = Inr None"
  by (simp add: defaultValueText_def bindE_def Let_def jsGet_def example_settings
        example_lower_defaults example_escape example_string_defaults)

section \<open>Timestamp columns of the model: claim C10\<close>

text \<open>What the flags, the additional options and the indentation depend on is not changed by
  \<^verbatim>\<open>addField\<close>.\<close>

lemma unchangedExcept_flags:
  assumes "unchangedExcept g g1"
  shows "isTimestampField g1 = isTimestampField g" and "isParanoidField g1 = isParanoidField g"
    and "additionalOptionsText g1 = additionalOptionsText g" and "sp g1 = sp g"
proof -
  have "additional ((options g1)\<lparr>noAlias := None\<rparr>) = additional ((options g)\<lparr>noAlias := None\<rparr>)"
    using assms by (simp only: unchangedExcept_def)
  then have a: "additional (options g1) = additional (options g)" by simp
  have s: "space g1 = space g" using assms by (simp add: unchangedExcept_def)
  show e: "sp g1 = sp g" by (intro ext) (simp add: sp_def s)
  have t: "additionalOptionText g1 = additionalOptionText g"
    unfolding additionalOptionText_def e by (rule refl)
  show "additionalOptionsText g1 = additionalOptionsText g"
    unfolding additionalOptionsText_def a t by (rule refl)
  show "isTimestampField g1 = isTimestampField g" and "isParanoidField g1 = isParanoidField g"
    by (intro ext, simp add: isTimestampField_def isParanoidField_def a)+
qed

text \<open>The two flags after the loop over the columns (lines 133-138).\<close>

lemma addTableFields_flags:
  assumes "addTableFields E table fs (ts0, par0, str0) g = (Inr (ts, par, str), g1)"
  shows "ts \<longleftrightarrow> ts0 \<or> (\<exists>f\<in>set fs. isTimestampField g f = Inr True)"
    and "par \<longleftrightarrow> par0 \<or> (\<exists>f\<in>set fs. isParanoidField g f = Inr True)"
  using assms
proof (induction fs arbitrary: ts0 par0 str0 g)
  case Nil
  {
    case 1
    then show ?case by simp
  next
    case 2
    then show ?case by simp
  }
next
  case (Cons field rest)
  {
    case 1
    from 1 obtain ts1 par1 ftext g' where
      t: "(if ts0 then Inr True else isTimestampField g field) = Inr ts1"
      and a: "addField E g table field = (Inr ftext, g')"
      and r: "addTableFields E table rest (ts1, par1, str0 @ ftext) g' = (Inr (ts, par, str), g1)"
      by (auto split: sum.splits prod.splits)
    have "unchangedExcept g g'"
      using addField_unchangedExcept [of g E table field] a by simp
    then have "isTimestampField g' = isTimestampField g"
      by (rule unchangedExcept_flags)
    with Cons.IH(1) [OF r] t show ?case
      by (auto split: if_splits)
  next
    case 2
    from 2 obtain ts1 par1 ftext g' where
      p: "(if par0 then Inr True else isParanoidField g field) = Inr par1"
      and a: "addField E g table field = (Inr ftext, g')"
      and r: "addTableFields E table rest (ts1, par1, str0 @ ftext) g' = (Inr (ts, par, str), g1)"
      by (auto split: sum.splits prod.splits)
    have "unchangedExcept g g'"
      using addField_unchangedExcept [of g E table field] a by simp
    then have "isParanoidField g' = isParanoidField g"
      by (rule unchangedExcept_flags)
    with Cons.IH(2) [OF r] p show ?case
      by (auto split: if_splits)
  }
qed

text \<open>
  The options block in the text that \<^verbatim>\<open>addTable\<close> returns, from its opening to the comment
  above the associations: the lines of lines 144-166, with the two flags as the loop over
  the columns left them, then the additional options.
\<close>

lemma addTable_options:
  assumes "addTable E g table = (Inr out, g')"
  shows "\<exists>ts par pre post.
      (ts \<longleftrightarrow> (\<exists>a. additional (options g) = Some a \<and> jsGet a ''timestamps'' = JBool True)
              \<or> (\<exists>f\<in>set (tableFields g table). isTimestampField g f = Inr True))
    \<and> (par \<longleftrightarrow> (\<exists>f\<in>set (tableFields g table). isParanoidField g f = Inr True))
    \<and> out = pre @ ''}, {'' @ [NL]
        @ sp g 2 @ ''tableName: '' @ [SQ] @ snd (qNameSplit E table) @ [SQ] @ '','' @ [NL]
        @ (if truthyStr (fst (qNameSplit E table)) \<and> hasSchema (dialect g)
           then sp g 2 @ ''schema: '' @ [SQ] @ optString (fst (qNameSplit E table)) @ [SQ]
                @ '','' @ [NL] else [])
        @ (if map_of (hasTriggerTables g) table = Some True
           then sp g 2 @ ''hasTrigger: true,'' @ [NL] else [])
        @ sp g 2 @ ''timestamps: '' @ (if ts then ''true'' else ''false'') @ '','' @ [NL]
        @ (if par then sp g 2 @ ''paranoid: true,'' @ [NL] else [])
        @ (if ts \<and> ''lastModifiedAt'' \<notin> set (tableFields g table)
           then sp g 2 @ ''updatedAt: false,'' @ [NL] else [])
        @ (if ts \<and> ''createdAt'' \<notin> set (tableFields g table)
           then sp g 2 @ ''createdAt: false,'' @ [NL] else [])
        @ additionalOptionsText g table
        @ sp g 2 @ ''// eslint-disable-next-line'' @ [NL]
        @ post"
proof -
  define ts0 where "ts0 = (case additional (options g) of None \<Rightarrow> False
               | Some a \<Rightarrow> jsGet a ''timestamps'' = JBool True)"
  let ?r = "addTableFields E table (tableFields g table) (ts0, False, []) g"
  obtain res g1 where r: "?r = (res, g1)" by (cases ?r) auto
  from assms r obtain ts par str0 where res: "res = Inr (ts, par, str0)"
    by (cases res) (auto simp: addTable_def Let_def ts0_def)
  have u: "unchangedExcept g g1"
    using addTableFields_unchangedExcept [of g E table "tableFields g table"] r
    by (metis snd_conv)
  note same = unchangedExcept_flags(3,4) [OF u]
  have d: "dialect g1 = dialect g" and h: "hasTriggerTables g1 = hasTriggerTables g"
    using u by (simp_all add: unchangedExcept_def)
  have "ts0 \<longleftrightarrow> (\<exists>a. additional (options g) = Some a \<and> jsGet a ''timestamps'' = JBool True)"
    by (simp add: ts0_def split: option.splits)
  with addTableFields_flags [OF r [unfolded res]]
  have ts: "ts \<longleftrightarrow> (\<exists>a. additional (options g) = Some a \<and> jsGet a ''timestamps'' = JBool True)
              \<or> (\<exists>f\<in>set (tableFields g table). isTimestampField g f = Inr True)"
    and par: "par \<longleftrightarrow> (\<exists>f\<in>set (tableFields g table). isParanoidField g f = Inr True)"
    by simp_all
  define g2 where "g2 = g1\<lparr>options := (options g1)\<lparr>noAlias := Some True\<rparr>\<rparr>"
  have "sp g2 = sp g1" by (intro ext) (simp add: sp_def g2_def)
  then have sp2: "sp g2 = sp g" using same(2) by simp
  define opn where "opn = ''}, {'' @ [NL]"
  define a where "a = (substring str0 0 (int (length str0) - 2) @ [NL]) @ sp g 1"
  define blk where "blk = sp g 2 @ ''tableName: '' @ [SQ] @ snd (qNameSplit E table) @ [SQ] @ '','' @ [NL]
        @ (if truthyStr (fst (qNameSplit E table)) \<and> hasSchema (dialect g)
           then sp g 2 @ ''schema: '' @ [SQ] @ optString (fst (qNameSplit E table)) @ [SQ]
                @ '','' @ [NL] else [])
        @ (if map_of (hasTriggerTables g) table = Some True
           then sp g 2 @ ''hasTrigger: true,'' @ [NL] else [])
        @ sp g 2 @ ''timestamps: '' @ (if ts then ''true'' else ''false'') @ '','' @ [NL]
        @ (if par then sp g 2 @ ''paranoid: true,'' @ [NL] else [])
        @ (if ts \<and> ''lastModifiedAt'' \<notin> set (tableFields g table)
           then sp g 2 @ ''updatedAt: false,'' @ [NL] else [])
        @ (if ts \<and> ''createdAt'' \<notin> set (tableFields g table)
           then sp g 2 @ ''createdAt: false,'' @ [NL] else [])
        @ additionalOptionsText g table
        @ sp g 2 @ ''// eslint-disable-next-line'' @ [NL]"
  define b where "b = sp g 2 @ ''associate: models => {'' @ [NL]
      @ concat (map (relationText E g2 (snd (qNameSplit E table))) (relations g2))
      @ sp g 2 @ ''},'' @ [NL] @ addIndexes g2 table"
  define rest where "rest = [NL] @ sp g 1 @ ''}'' @ '');'' @ [NL]
     @ (if lang (options g2) \<in> {Some ''es6'', Some ''esm'', Some ''ts''}
        then sp g 1 @ ''return ''
             @ recase E (caseModel (options g)) (snd (qNameSplit E table)) (singularize (options g))
             @ '';'' @ [NL] @ sp g 1 @ ''}'' @ [NL] @ ''}'' @ [NL]
        else [])"
  have "addTable E g table
          = (Inr (substring (sp g 2 @ trim (a @ opn @ blk @ b)) 0
                    (int (length (sp g 2 @ trim (a @ opn @ blk @ b))) - 1) @ rest), g2)"
    unfolding addTable_def Let_def ts0_def [symmetric] r res prod.case sum.case
      tableOptionsText_def timestampColumnsText_def g2_def [symmetric] sp2 same d h
      a_def blk_def b_def rest_def opn_def
    by simp
  with assms have out: "out = butlast (sp g 2 @ trim (a @ opn @ blk @ b)) @ rest"
    unfolding substring_butlast by auto
  have "opn \<noteq> []" and "\<not> isSpace (hd opn)" by (simp_all add: opn_def isSpace_def)
  then obtain w where w: "\<And>r. trimStart (a @ opn @ r) = w @ opn @ r"
    using trimStart_tail [of opn a] by auto
  have "CHR ''}'' \<in> set b" by (simp add: b_def)
  moreover have "\<not> isSpace CHR ''}''" by (simp add: isSpace_def)
  ultimately have nb: "\<exists>c\<in>set b. \<not> isSpace c" by blast
  have "trim (a @ opn @ blk @ b) = trimEnd ((w @ opn @ blk) @ b)"
    by (simp add: trim_def w)
  also have "\<dots> = (w @ opn @ blk) @ trimEnd b"
    by (rule trimEnd_append_nonspace(1) [OF nb])
  finally have "butlast (sp g 2 @ trim (a @ opn @ blk @ b))
      = (sp g 2 @ w) @ opn @ blk @ butlast (trimEnd b)"
    using trimEnd_append_nonspace(2) [OF nb] by (simp add: butlast_append)
  with out have "out = (sp g 2 @ w) @ ''}, {'' @ [NL] @ blk @ (butlast (trimEnd b) @ rest)"
    by (simp add: opn_def)
  then have "out = (sp g 2 @ w) @ ''}, {'' @ [NL]
        @ sp g 2 @ ''tableName: '' @ [SQ] @ snd (qNameSplit E table) @ [SQ] @ '','' @ [NL]
        @ (if truthyStr (fst (qNameSplit E table)) \<and> hasSchema (dialect g)
           then sp g 2 @ ''schema: '' @ [SQ] @ optString (fst (qNameSplit E table)) @ [SQ]
                @ '','' @ [NL] else [])
        @ (if map_of (hasTriggerTables g) table = Some True
           then sp g 2 @ ''hasTrigger: true,'' @ [NL] else [])
        @ sp g 2 @ ''timestamps: '' @ (if ts then ''true'' else ''false'') @ '','' @ [NL]
        @ (if par then sp g 2 @ ''paranoid: true,'' @ [NL] else [])
        @ (if ts \<and> ''lastModifiedAt'' \<notin> set (tableFields g table)
           then sp g 2 @ ''updatedAt: false,'' @ [NL] else [])
        @ (if ts \<and> ''createdAt'' \<notin> set (tableFields g table)
           then sp g 2 @ ''createdAt: false,'' @ [NL] else [])
        @ additionalOptionsText g table
        @ sp g 2 @ ''// eslint-disable-next-line'' @ [NL]
        @ (butlast (trimEnd b) @ rest)"
    unfolding blk_def by (simp only: append_assoc)
  with ts par show ?thesis by blast
qed

text \<open>
  Claim C10, as the code has it. The options block in the text of \<^verbatim>\<open>addTable\<close> is, from its
  opening to the comment above the associations: the table name, the schema and the trigger
  flag if there are any, the timestamps flag, the paranoid flag if it is set, the line
  \<open>updatedAt: false,\<close> exactly when timestamps are enabled and no column is named
  \<open>lastModifiedAt\<close>, the line \<open>createdAt: false,\<close> exactly when timestamps are enabled and no
  column is named \<open>createdAt\<close>, and then the additional options. Both tests compare the names
  as they are. Timestamps are enabled when the additional option \<^verbatim>\<open>timestamps\<close> is \<^verbatim>\<open>true\<close>
  or a column is a timestamp field. The additional options are written whatever the columns
  of the table are.
\<close>

theorem timestamp_columns_switched_off:
  assumes "addTable E g table = (Inr out, g')"
  shows "\<exists>ts par pre post.
      (ts \<longleftrightarrow> (\<exists>a. additional (options g) = Some a \<and> jsGet a ''timestamps'' = JBool True)
              \<or> (\<exists>f\<in>set (tableFields g table). isTimestampField g f = Inr True))
    \<and> (par \<longleftrightarrow> (\<exists>f\<in>set (tableFields g table). isParanoidField g f = Inr True))
    \<and> out = pre @ ''}, {'' @ [NL]
        @ sp g 2 @ ''tableName: '' @ [SQ] @ snd (qNameSplit E table) @ [SQ] @ '','' @ [NL]
        @ (if truthyStr (fst (qNameSplit E table)) \<and> hasSchema (dialect g)
           then sp g 2 @ ''schema: '' @ [SQ] @ optString (fst (qNameSplit E table)) @ [SQ]
                @ '','' @ [NL] else [])
        @ (if map_of (hasTriggerTables g) table = Some True
           then sp g 2 @ ''hasTrigger: true,'' @ [NL] else [])
        @ sp g 2 @ ''timestamps: '' @ (if ts then ''true'' else ''false'') @ '','' @ [NL]
        @ (if par then sp g 2 @ ''paranoid: true,'' @ [NL] else [])
        @ (if ts \<and> ''lastModifiedAt'' \<notin> set (tableFields g table)
           then sp g 2 @ ''updatedAt: false,'' @ [NL] else [])
        @ (if ts \<and> ''createdAt'' \<notin> set (tableFields g table)
           then sp g 2 @ ''createdAt: false,'' @ [NL] else [])
        @ additionalOptionsText g table
        @ sp g 2 @ ''// eslint-disable-next-line'' @ [NL]
        @ post"
  using addTable_options [OF assms] .

theorem timestamp_columns_switched_off_witness:
  "\<exists>out pre post.
      fst (addTable exampleImports auditGenerator ''log'') = Inr out
    \<and> out = pre @ ''}, {'' @ [NL]
        @ ''    tableName: '' @ [SQ] @ ''log'' @ [SQ] @ '','' @ [NL]
        @ ''    timestamps: true,'' @ [NL]
        @ ''    createdAt: false,'' @ [NL]
        @ ''    updatedAt: false,'' @ [NL]
        @ ''    // eslint-disable-next-line'' @ [NL]
        @ post"
proof -
  obtain out g' where t: "addTable exampleImports auditGenerator ''log'' = (Inr out, g')"
    using example_audit_addTable by blast
  from timestamp_columns_switched_off [OF t] obtain pre post where
    "out = pre @ ''}, {'' @ [NL]
        @ ''    tableName: '' @ [SQ] @ ''log'' @ [SQ] @ '','' @ [NL]
        @ ''    timestamps: true,'' @ [NL]
        @ ''    createdAt: false,'' @ [NL]
        @ ''    updatedAt: false,'' @ [NL]
        @ ''    // eslint-disable-next-line'' @ [NL]
        @ post"
    by (auto simp: example_audit_settings example_audit_flags truthyStr_def jsGet_def)
  with t show ?thesis by auto
qed

text \<open>
  The claim as stated fails where an additional option writes the same line: with the
  additional options \<^verbatim>\<open>{ timestamps: true, updatedAt: false }\<close> the table \<open>log\<close> has a column
  named \<open>lastModifiedAt\<close>, and its options block has the line \<open>updatedAt: false,\<close>, written
  by lines 180-182 after the line \<open>createdAt: false,\<close> of line 165.
\<close>

theorem additional_option_switches_updatedAt_off:
  "''lastModifiedAt'' \<in> set (tableFields auditGenerator ''log'')
   \<and> emits (''    timestamps: true,'' @ [NL]
            @ ''    createdAt: false,'' @ [NL]
            @ ''    updatedAt: false,'' @ [NL]
            @ ''    // eslint-disable-next-line'' @ [NL])
        (fst (addTable exampleImports auditGenerator ''log''))"
proof -
  obtain out g' where t: "addTable exampleImports auditGenerator ''log'' = (Inr out, g')"
    using example_audit_addTable by blast
  from addTable_options [OF t] obtain pre post where
    "out = (pre @ ''}, {'' @ [NL]
        @ ''    tableName: '' @ [SQ] @ ''log'' @ [SQ] @ '','' @ [NL])
        @ (''    timestamps: true,'' @ [NL]
        @ ''    createdAt: false,'' @ [NL]
        @ ''    updatedAt: false,'' @ [NL]
        @ ''    // eslint-disable-next-line'' @ [NL])
        @ post"
    by (auto simp: example_audit_settings example_audit_flags truthyStr_def jsGet_def)
  then have "sublist (''    timestamps: true,'' @ [NL]
            @ ''    createdAt: false,'' @ [NL]
            @ ''    updatedAt: false,'' @ [NL]
            @ ''    // eslint-disable-next-line'' @ [NL]) out"
    unfolding sublist_def by blast
  with t show ?thesis
    by (simp add: emits_def example_audit_settings)
qed

end
